theory Spec2Isabelle
  imports Complex_Main
begin

section \<open>Python values\<close>

text \<open>
  Parameters, results, analyses and persisted documents are Python dictionaries whose
  values are \<open>None\<close>, booleans, numbers, strings, lists and string-keyed dictionaries.
  A dictionary is an association list in insertion order (the order \<open>items()\<close> iterates
  in). Python floats are modelled by reals. \<open>json.dump\<close> followed by \<open>json.load\<close> is
  the identity on these values, so a stored JSON file is represented by the value itself.
\<close>

datatype pyval =
    PNone
  | PBool bool
  | PInt int
  | PFloat real
  | PStr string
  | PList "pyval list"
  | PDict "(string \<times> pyval) list"

type_synonym pydict = "(string \<times> pyval) list"

text \<open>\<open>d.get(k, default)\<close>\<close>

definition py_get :: "pydict \<Rightarrow> string \<Rightarrow> pyval \<Rightarrow> pyval" where
  "py_get d k dflt = (case map_of d k of None \<Rightarrow> dflt | Some v \<Rightarrow> v)"

text \<open>\<open>d[k] = v\<close>: an existing key keeps its position, a new key is appended.\<close>

fun dict_set :: "pydict \<Rightarrow> string \<Rightarrow> pyval \<Rightarrow> pydict" where
  "dict_set [] k v = [(k, v)]"
| "dict_set ((k', v') # d) k v = (if k' = k then (k, v) # d else (k', v') # dict_set d k v)"

text \<open>Truth value of an object in a condition.\<close>

fun truthy :: "pyval \<Rightarrow> bool" where
  "truthy PNone = False"
| "truthy (PBool b) = b"
| "truthy (PInt i) = (i \<noteq> 0)"
| "truthy (PFloat r) = (r \<noteq> 0)"
| "truthy (PStr s) = (s \<noteq> [])"
| "truthy (PList xs) = (xs \<noteq> [])"
| "truthy (PDict d) = (d \<noteq> [])"

definition py_opt :: "('a \<Rightarrow> pyval) \<Rightarrow> 'a option \<Rightarrow> pyval" where
  "py_opt f x = (case x of None \<Rightarrow> PNone | Some v \<Rightarrow> f v)"

text \<open>Decimal rendering of integers, as an f-string does it.\<close>

definition digit_char :: "nat \<Rightarrow> char" where
  "digit_char d = ''0123456789'' ! d"

fun show_nat :: "nat \<Rightarrow> string" where
  "show_nat n = (if n < 10 then [digit_char n] else show_nat (n div 10) @ [digit_char (n mod 10)])"

declare show_nat.simps [simp del]

definition show_int :: "int \<Rightarrow> string" where
  "show_int i = (if i < 0 then ''-'' @ show_nat (nat (- i)) else show_nat (nat i))"

text \<open>\<open>int(x)\<close> on a float truncates towards zero.\<close>

definition py_int :: "real \<Rightarrow> int" where
  "py_int r = (if 0 \<le> r then \<lfloor>r\<rfloor> else \<lceil>r\<rceil>)"

text \<open>\<open>s.replace(' ', '_')\<close>\<close>

definition replace_spaces :: "string \<Rightarrow> string" where
  "replace_spaces s = map (\<lambda>c. if c = CHR '' '' then CHR ''_'' else c) s"


section \<open>Recorder: session capture (recorder/capture.py)\<close>

record CapturedAction =
  timestamp :: real
  action_type :: string
  tool_name :: string
  parameters :: pydict
  result :: "pydict option"
  screenshot_path :: "string option"
  duration_ms :: "real option"
  success :: bool
  error :: "string option"

record RecordingSession =
  session_id :: string
  name :: string
  started_at :: real
  ended_at :: "real option"
  actions :: "CapturedAction list"
  metadata :: pydict

text \<open>
  The state of a \<open>WorkflowCapture\<close> object. \<open>files\<close> is the content of the storage
  directory: the JSON document stored under each file name. \<open>ticks\<close> counts the reads of
  \<open>time.time()\<close> made so far; the \<open>k\<close>-th read returns \<open>now k\<close> for the time source
  \<open>now\<close> that every operation takes.
\<close>

record WorkflowCapture =
  is_recording :: bool
  current_session :: "RecordingSession option"
  storage_dir :: string
  capture_screenshots :: bool
  action_start_times :: "string \<rightharpoonup> real"
  files :: "string \<rightharpoonup> pyval"
  ticks :: nat

text \<open>\<open>CapturedAction.to_dict\<close> (\<open>asdict\<close>)\<close>

definition to_dict :: "CapturedAction \<Rightarrow> pyval" where
  "to_dict a = PDict
     [(''timestamp'', PFloat (timestamp a)),
      (''action_type'', PStr (action_type a)),
      (''tool_name'', PStr (tool_name a)),
      (''parameters'', PDict (parameters a)),
      (''result'', py_opt PDict (result a)),
      (''screenshot_path'', py_opt PStr (screenshot_path a)),
      (''duration_ms'', py_opt PFloat (duration_ms a)),
      (''success'', PBool (success a)),
      (''error'', py_opt PStr (error a))]"

text \<open>The dictionary \<open>_save_session\<close> dumps.\<close>

definition session_data :: "RecordingSession \<Rightarrow> pyval" where
  "session_data s = PDict
     [(''session_id'', PStr (session_id s)),
      (''name'', PStr (name s)),
      (''started_at'', PFloat (started_at s)),
      (''ended_at'', py_opt PFloat (ended_at s)),
      (''duration_seconds'',
         (case ended_at s of
            None \<Rightarrow> PNone
          | Some e \<Rightarrow> if e \<noteq> 0 then PFloat (e - started_at s) else PNone)),
      (''action_count'', PInt (int (length (actions s)))),
      (''metadata'', PDict (metadata s)),
      (''actions'', PList (map to_dict (actions s)))]"

definition session_file :: "string \<Rightarrow> string" where
  "session_file sid = sid @ ''.json''"

definition save_session :: "WorkflowCapture \<Rightarrow> RecordingSession \<Rightarrow> WorkflowCapture" where
  "save_session w s = w\<lparr>files := (files w)(session_file (session_id s) \<mapsto> session_data s)\<rparr>"

definition stop_recording :: "(nat \<Rightarrow> real) \<Rightarrow> WorkflowCapture \<Rightarrow> string option \<times> WorkflowCapture" where
  "stop_recording now w =
     (case current_session w of
        None \<Rightarrow> (None, w)
      | Some s \<Rightarrow>
          if \<not> is_recording w then (None, w)
          else
            let s' = s\<lparr>ended_at := Some (now (ticks w))\<rparr>;
                w1 = w\<lparr>current_session := Some s', is_recording := False, ticks := ticks w + 1\<rparr>;
                w2 = save_session w1 s'
            in (Some (session_id s'), w2\<lparr>current_session := None\<rparr>))"

definition start_recording ::
  "(nat \<Rightarrow> real) \<Rightarrow> WorkflowCapture \<Rightarrow> string \<Rightarrow> pydict option \<Rightarrow> string \<times> WorkflowCapture" where
  "start_recording now w nm md =
     (let w1 = (if is_recording w then snd (stop_recording now w) else w);
          sid = ''session_'' @ show_int (py_int (now (ticks w1))) @ ''_'' @ replace_spaces nm;
          s = \<lparr>session_id = sid, name = nm, started_at = now (ticks w1 + 1), ended_at = None,
               actions = [], metadata = (case md of None \<Rightarrow> [] | Some m \<Rightarrow> m)\<rparr>
      in (sid, w1\<lparr>current_session := Some s, is_recording := True, ticks := ticks w1 + 2\<rparr>))"

definition mark_action_start ::
  "(nat \<Rightarrow> real) \<Rightarrow> WorkflowCapture \<Rightarrow> string \<Rightarrow> string \<Rightarrow> WorkflowCapture" where
  "mark_action_start now w atype tool =
     w\<lparr>action_start_times := (action_start_times w)(atype @ '':'' @ tool \<mapsto> now (ticks w)),
       ticks := ticks w + 1\<rparr>"

definition capture_screenshot ::
  "(nat \<Rightarrow> real) \<Rightarrow> WorkflowCapture \<Rightarrow> RecordingSession \<Rightarrow> string \<Rightarrow> string
     \<Rightarrow> string option \<times> WorkflowCapture" where
  "capture_screenshot now w s atype tool =
     (let stamp = py_int (now (ticks w) * 1000);
          filename = session_id s @ ''_'' @ atype @ ''_'' @ tool @ ''_'' @ show_int stamp @ ''.png''
      in (Some (storage_dir w @ ''/screenshots/'' @ filename), w\<lparr>ticks := ticks w + 1\<rparr>))"

definition capture_action ::
  "(nat \<Rightarrow> real) \<Rightarrow> WorkflowCapture \<Rightarrow> string \<Rightarrow> string \<Rightarrow> pydict \<Rightarrow> pydict option \<Rightarrow> bool
     \<Rightarrow> string option \<Rightarrow> string option \<times> WorkflowCapture" where
  "capture_action now w atype tool params res succ err =
     (case current_session w of
        None \<Rightarrow> (None, w)
      | Some s \<Rightarrow>
          if \<not> is_recording w then (None, w)
          else
            let action_key = atype @ '':'' @ tool;
                (duration, w1) =
                  (case action_start_times w action_key of
                     None \<Rightarrow> (None, w)
                   | Some t0 \<Rightarrow>
                       (Some ((now (ticks w) - t0) * 1000),
                        w\<lparr>action_start_times := (action_start_times w)(action_key := None),
                          ticks := ticks w + 1\<rparr>));
                (shot, w2) =
                  (if capture_screenshots w1 \<and> atype \<in> set [''vision'', ''browser'', ''hands'']
                   then capture_screenshot now w1 s atype tool
                   else (None, w1));
                action = \<lparr>timestamp = now (ticks w2), action_type = atype, tool_name = tool,
                           parameters = params,
                           result = (case res of None \<Rightarrow> None
                                     | Some r \<Rightarrow> if r = [] then None else Some r),
                           screenshot_path = shot, duration_ms = duration,
                           success = succ, error = err\<rparr>;
                s' = s\<lparr>actions := actions s @ [action]\<rparr>
            in (Some (''action_'' @ show_nat (length (actions s'))),
                w2\<lparr>current_session := Some s', ticks := ticks w2 + 1\<rparr>))"















text \<open>The operations a client can apply to a recorder, and a run of them.\<close>

datatype recorder_op =
    StartRecording string "pydict option"
  | StopRecording
  | MarkActionStart string string
  | CaptureAction string string pydict "pydict option" bool "string option"

fun recorder_step :: "(nat \<Rightarrow> real) \<Rightarrow> WorkflowCapture \<Rightarrow> recorder_op \<Rightarrow> WorkflowCapture" where
  "recorder_step now w (StartRecording nm md) = snd (start_recording now w nm md)"
| "recorder_step now w StopRecording = snd (stop_recording now w)"
| "recorder_step now w (MarkActionStart atype tool) = mark_action_start now w atype tool"
| "recorder_step now w (CaptureAction atype tool params res succ err) =
     snd (capture_action now w atype tool params res succ err)"

definition recorder_run :: "(nat \<Rightarrow> real) \<Rightarrow> WorkflowCapture \<Rightarrow> recorder_op list \<Rightarrow> WorkflowCapture" where
  "recorder_run now w ops = foldl (recorder_step now) w ops"





definition initial_capture :: "string \<Rightarrow> bool \<Rightarrow> (string \<rightharpoonup> pyval) \<Rightarrow> WorkflowCapture" where
  "initial_capture dir shots fs =
     \<lparr>is_recording = False, current_session = None, storage_dir = dir,
      capture_screenshots = shots, action_start_times = Map.empty, files = fs, ticks = 0\<rparr>"


section \<open>Python equality\<close>

text \<open>
  \<open>a == b\<close> on the values above: numbers (booleans included) compare by value,
  strings and \<open>None\<close> by identity of content, lists element by element, dictionaries by
  having the same keys with equal values, whatever the insertion order.
\<close>

fun num_of :: "pyval \<Rightarrow> real option" where
  "num_of (PBool b) = Some (if b then 1 else 0)"
| "num_of (PInt i) = Some (of_int i)"
| "num_of (PFloat r) = Some r"
| "num_of _ = None"

fun py_eq :: "pyval \<Rightarrow> pyval \<Rightarrow> bool"
  and py_eq_list :: "pyval list \<Rightarrow> pyval list \<Rightarrow> bool"
  and py_eq_items :: "(string \<times> pyval) list \<Rightarrow> (string \<times> pyval) list \<Rightarrow> bool" where
  "py_eq (PList xs) (PList ys) = py_eq_list xs ys"
| "py_eq (PDict d) (PDict e) = (length d = length e \<and> py_eq_items d e)"
| "py_eq (PStr s) (PStr t) = (s = t)"
| "py_eq PNone PNone = True"
| "py_eq a b = (case num_of a of None \<Rightarrow> False
                | Some x \<Rightarrow> (case num_of b of None \<Rightarrow> False | Some y \<Rightarrow> x = y))"
| "py_eq_list [] [] = True"
| "py_eq_list (x # xs) (y # ys) = (py_eq x y \<and> py_eq_list xs ys)"
| "py_eq_list _ _ = False"
| "py_eq_items [] e = True"
| "py_eq_items ((k, v) # d) e =
     ((case map_of e k of None \<Rightarrow> False | Some v' \<Rightarrow> py_eq v v') \<and> py_eq_items d e)"




section \<open>Generator: workflow synthesis (recorder/workflow\_generator.py)\<close>

text \<open>
  A workflow step is a dictionary with fixed keys. An action step has \<open>step\<close>,
  \<open>action\<close>, \<open>parameters\<close> and optionally \<open>expected_result\<close>, \<open>on_error\<close> and
  \<open>timeout\<close>; a loop step has \<open>step\<close>, \<open>action = 'loop'\<close>, \<open>iterations\<close> and
  \<open>steps\<close>.
\<close>

datatype wf_step =
    ActionStep nat string pydict "pydict option" "string option" "int option"
  | LoopStep nat nat "wf_step list"

text \<open>\<open>step['action']\<close>, \<open>step.get('parameters')\<close>, \<open>step.get('on_error')\<close>\<close>

fun step_action :: "wf_step \<Rightarrow> string" where
  "step_action (ActionStep n a ps er oe tmo) = a"
| "step_action (LoopStep n it pat) = ''loop''"

fun step_parameters :: "wf_step \<Rightarrow> pydict option" where
  "step_parameters (ActionStep n a ps er oe tmo) = Some ps"
| "step_parameters (LoopStep n it pat) = None"

fun step_on_error :: "wf_step \<Rightarrow> string option" where
  "step_on_error (ActionStep n a ps er oe tmo) = oe"
| "step_on_error (LoopStep n it pat) = None"

record var_def =
  var_value :: pyval
  var_description :: string
  var_type :: string

type_synonym variables = "(string \<times> var_def) list"

record workflow =
  wf_name :: string
  wf_description :: string
  wf_version :: string
  wf_metadata :: pydict
  wf_variables :: variables
  wf_steps :: "wf_step list"

record generator_config =
  optimize :: bool
  extract_variables_enabled :: bool
  detect_loops :: bool

definition default_config :: generator_config where
  "default_config = \<lparr>optimize = True, extract_variables_enabled = True, detect_loops = True\<rparr>"

subsection \<open>Variable extraction\<close>

text \<open>\<open>isinstance(param_value, (str, int, float))\<close>; \<open>bool\<close> is a subclass of \<open>int\<close>.\<close>

fun is_scalar :: "pyval \<Rightarrow> bool" where
  "is_scalar (PStr s) = True"
| "is_scalar (PInt i) = True"
| "is_scalar (PFloat r) = True"
| "is_scalar (PBool b) = True"
| "is_scalar _ = False"

text \<open>\<open>type(v).__name__\<close>\<close>

fun type_name :: "pyval \<Rightarrow> string" where
  "type_name PNone = ''NoneType''"
| "type_name (PBool b) = ''bool''"
| "type_name (PInt i) = ''int''"
| "type_name (PFloat r) = ''float''"
| "type_name (PStr s) = ''str''"
| "type_name (PList xs) = ''list''"
| "type_name (PDict d) = ''dict''"

text \<open>
  \<open>value_counts\<close>: the observed values per key, keys in order of first appearance.
\<close>

fun add_value :: "(string \<times> pyval list) list \<Rightarrow> string \<Rightarrow> pyval \<Rightarrow> (string \<times> pyval list) list" where
  "add_value [] k v = [(k, [v])]"
| "add_value ((k', vs) # vc) k v =
     (if k' = k then (k', vs @ [v]) # vc else (k', vs) # add_value vc k v)"

definition collect_action ::
  "(string \<times> pyval list) list \<Rightarrow> CapturedAction \<Rightarrow> (string \<times> pyval list) list" where
  "collect_action vc a =
     foldl (\<lambda>vc (param_name, param_value).
              if is_scalar param_value
              then add_value vc (action_type a @ ''_'' @ tool_name a @ ''_'' @ param_name) param_value
              else vc)
       vc (parameters a)"

definition value_counts :: "CapturedAction list \<Rightarrow> (string \<times> pyval list) list" where
  "value_counts acts = foldl collect_action [] acts"

text \<open>\<open>values.count(x)\<close>\<close>

definition py_count :: "pyval list \<Rightarrow> pyval \<Rightarrow> nat" where
  "py_count vs x = length (filter (\<lambda>y. py_eq y x) vs)"

text \<open>
  The elements of \<open>set(values)\<close>: of several equal values the one inserted first is kept.
  They are listed here in insertion order; the order in which Python iterates over the set
  is that of its hash table, which the source does not determine, so the functions below
  take it as the parameter \<open>set_order\<close>, applied to this list.
\<close>

definition py_set :: "pyval list \<Rightarrow> pyval list" where
  "py_set vs = foldl (\<lambda>acc x. if list_ex (\<lambda>y. py_eq y x) acc then acc else acc @ [x]) [] vs"

text \<open>
  \<open>max(iterable, key=f)\<close> returns the first element, in iteration order, whose key is
  maximal, and raises \<open>ValueError\<close> on an empty iterable (\<open>None\<close> here).
\<close>

fun py_max_by :: "('a \<Rightarrow> nat) \<Rightarrow> 'a list \<Rightarrow> 'a option" where
  "py_max_by f [] = None"
| "py_max_by f (x # xs) = Some (foldl (\<lambda>best y. if f best < f y then y else best) x xs)"

definition most_common :: "(pyval list \<Rightarrow> pyval list) \<Rightarrow> pyval list \<Rightarrow> pyval option" where
  "most_common set_order vs = py_max_by (py_count vs) (set_order (py_set vs))"

text \<open>
  The second loop of \<open>_extract_variables\<close>, with \<open>var_counter\<close> as argument.
  The result is \<open>None\<close> when \<open>max\<close> raises.
\<close>

fun make_variables ::
  "(pyval list \<Rightarrow> pyval list) \<Rightarrow> nat \<Rightarrow> (string \<times> pyval list) list \<Rightarrow> variables option" where
  "make_variables set_order var_counter [] = Some []"
| "make_variables set_order var_counter ((key, vs) # rest) =
     (if length vs > 1 then
        (case most_common set_order vs of
           None \<Rightarrow> None
         | Some mc \<Rightarrow>
             (case make_variables set_order (var_counter + 1) rest of
                None \<Rightarrow> None
              | Some rest_vars \<Rightarrow>
                  Some ((''var_'' @ show_nat var_counter,
                         \<lparr>var_value = mc, var_description = ''Extracted from '' @ key,
                          var_type = type_name mc\<rparr>) # rest_vars)))
      else make_variables set_order var_counter rest)"

definition extract_variables ::
  "(pyval list \<Rightarrow> pyval list) \<Rightarrow> CapturedAction list \<Rightarrow> variables option" where
  "extract_variables set_order acts = make_variables set_order 1 (value_counts acts)"

subsection \<open>Step conversion\<close>

definition var_ref :: "string \<Rightarrow> pyval" where
  "var_ref var_name = PStr (''${'' @ var_name @ ''}'')"

definition find_variable :: "variables \<Rightarrow> pyval \<Rightarrow> string option" where
  "find_variable vars param_value =
     map_option fst (find (\<lambda>(var_name, d). py_eq param_value (var_value d)) vars)"

definition substitute_variables :: "pydict \<Rightarrow> variables \<Rightarrow> pydict" where
  "substitute_variables params vars =
     foldl (\<lambda>substituted (param_name, param_value).
              case find_variable vars param_value of
                None \<Rightarrow> substituted
              | Some var_name \<Rightarrow> dict_set substituted param_name (var_ref var_name))
       params params"

definition essential_fields :: "string list" where
  "essential_fields = [''status'', ''success'', ''element_count'', ''found'', ''visible'']"

definition simplify_result :: "pydict \<Rightarrow> pydict" where
  "simplify_result res =
     concat (map (\<lambda>field. case map_of res field of None \<Rightarrow> [] | Some v \<Rightarrow> [(field, v)])
               essential_fields)"

definition convert_action :: "variables \<Rightarrow> nat \<Rightarrow> CapturedAction \<Rightarrow> wf_step" where
  "convert_action vars idx a =
     ActionStep idx (action_type a @ ''.'' @ tool_name a)
       (substitute_variables (parameters a) vars)
       (case result a of
          None \<Rightarrow> None
        | Some r \<Rightarrow> if r \<noteq> [] then Some (simplify_result r) else None)
       (if \<not> success a then Some ''continue'' else None)
       (case duration_ms a of
          None \<Rightarrow> None
        | Some d \<Rightarrow> if d \<noteq> 0 \<and> d > 1000 then Some (py_int (d * 1.5)) else None)"

definition convert_actions_to_steps :: "CapturedAction list \<Rightarrow> variables \<Rightarrow> wf_step list" where
  "convert_actions_to_steps acts vars =
     map (\<lambda>(idx, a). convert_action vars idx a) (zip [1..<length acts + 1] acts)"

subsection \<open>Loop detection\<close>

text \<open>\<open>xs[a:b]\<close> for \<open>0 \<le> a \<le> b\<close>\<close>

definition slice :: "'a list \<Rightarrow> nat \<Rightarrow> nat \<Rightarrow> 'a list" where
  "slice xs a b = take (b - a) (drop a xs)"

definition is_pattern_repeating :: "wf_step list \<Rightarrow> nat \<Rightarrow> nat \<Rightarrow> bool" where
  "is_pattern_repeating steps start_idx pattern_length =
     (if start_idx + pattern_length * 2 > length steps then False
      else
        let pattern = slice steps start_idx (start_idx + pattern_length);
            next_sequence = slice steps (start_idx + pattern_length)
                              (start_idx + pattern_length * 2)
        in list_all (\<lambda>(p, n). step_action p = step_action n) (zip pattern next_sequence))"

definition find_pattern_length :: "wf_step list \<Rightarrow> nat \<Rightarrow> nat" where
  "find_pattern_length steps start_idx =
     (let max_pattern_length = min 10 ((length steps - start_idx) div 2)
      in case find (is_pattern_repeating steps start_idx) [1..<max_pattern_length + 1] of
           None \<Rightarrow> 1
         | Some pattern_length \<Rightarrow> pattern_length)"

text \<open>
  The \<open>while\<close> loop of \<open>_count_pattern_repeats\<close>. For \<open>pattern_length = 0\<close> the loop
  of the source never ends, so the result is optional: \<open>None\<close> stands for no return.
\<close>

partial_function (option) count_loop :: "wf_step list \<Rightarrow> nat \<Rightarrow> nat \<Rightarrow> nat \<Rightarrow> nat option" where
  "count_loop steps pattern_length idx count =
     (if idx + pattern_length \<le> length steps then
        (if is_pattern_repeating steps idx pattern_length
         then count_loop steps pattern_length (idx + pattern_length) (count + 1)
         else Some count)
      else Some count)"

declare count_loop.simps [code]

definition count_pattern_repeats :: "wf_step list \<Rightarrow> nat \<Rightarrow> nat \<Rightarrow> nat option" where
  "count_pattern_repeats steps start_idx pattern_length =
     map_option (\<lambda>count. max count 1) (count_loop steps pattern_length start_idx 0)"

text \<open>
  The \<open>while\<close> loop of \<open>_detect_and_optimize_loops\<close>, with the index \<open>i\<close> and the list
  \<open>optimized\<close> built so far as arguments.
\<close>

function detect_loop :: "wf_step list \<Rightarrow> nat \<Rightarrow> wf_step list \<Rightarrow> wf_step list option" where
  "detect_loop steps i optimized =
     (if i < length steps then
        (let pattern_length = find_pattern_length steps i in
         if pattern_length > 1 then
           (case count_pattern_repeats steps i pattern_length of
              None \<Rightarrow> None
            | Some repeat_count \<Rightarrow>
                detect_loop steps (i + pattern_length * repeat_count)
                  (optimized @
                   [LoopStep (length optimized + 1) repeat_count
                      (slice steps i (i + pattern_length))]))
         else detect_loop steps (i + 1) (optimized @ [steps ! i]))
      else Some optimized)"
  by pat_completeness auto
termination
proof (relation "measure (\<lambda>(steps, i, optimized). length steps - i)")
  show "wf (measure (\<lambda>(steps, i, optimized). length steps - i))" by simp
next
  fix steps :: "wf_step list" and i :: nat and optimized :: "wf_step list"
    and pattern_length repeat_count :: nat
  assume "i < length steps" "pattern_length = find_pattern_length steps i" "1 < pattern_length"
    "count_pattern_repeats steps i pattern_length = Some repeat_count"
  then have "0 < pattern_length * repeat_count"
    by (auto simp: count_pattern_repeats_def)
  with \<open>i < length steps\<close>
  have "length steps - (i + pattern_length * repeat_count) < length steps - i"
    by linarith
  then show "((steps, i + pattern_length * repeat_count,
          optimized @ [LoopStep (length optimized + 1) repeat_count
                         (slice steps i (i + pattern_length))]),
         (steps, i, optimized)) \<in> measure (\<lambda>(steps, i, optimized). length steps - i)"
    by simp
next
  fix steps :: "wf_step list" and i :: nat and optimized :: "wf_step list" and pattern_length :: nat
  assume "i < length steps"
  then show "((steps, i + 1, optimized @ [steps ! i]), (steps, i, optimized))
      \<in> measure (\<lambda>(steps, i, optimized). length steps - i)"
    by simp
qed

declare detect_loop.simps [simp del]

definition detect_and_optimize_loops :: "wf_step list \<Rightarrow> wf_step list option" where
  "detect_and_optimize_loops steps = detect_loop steps 0 []"

subsection \<open>General optimization\<close>

text \<open>\<open>step1.get('parameters') == step2.get('parameters')\<close>\<close>

fun parameters_eq :: "pydict option \<Rightarrow> pydict option \<Rightarrow> bool" where
  "parameters_eq None None = True"
| "parameters_eq (Some d) (Some e) = py_eq (PDict d) (PDict e)"
| "parameters_eq _ _ = False"

definition is_redundant :: "wf_step \<Rightarrow> wf_step \<Rightarrow> bool" where
  "is_redundant step1 step2 =
     (step_action step1 = step_action step2 \<and>
      parameters_eq (step_parameters step1) (step_parameters step2))"

definition can_merge :: "wf_step \<Rightarrow> wf_step \<Rightarrow> bool" where
  "can_merge step1 step2 = False"

definition merge_steps :: "wf_step \<Rightarrow> wf_step \<Rightarrow> wf_step" where
  "merge_steps step1 step2 = step1"

text \<open>The \<open>for\<close> loop of \<open>_optimize_steps\<close>, with \<open>optimized\<close> and \<open>prev_step\<close> as arguments.\<close>

fun optimize_loop :: "wf_step list \<Rightarrow> wf_step option \<Rightarrow> wf_step list \<Rightarrow> wf_step list" where
  "optimize_loop optimized prev_step [] = optimized"
| "optimize_loop optimized prev_step (step # steps) =
     (case prev_step of
        None \<Rightarrow> optimize_loop (optimized @ [step]) (Some step) steps
      | Some prev \<Rightarrow>
          if is_redundant prev step then optimize_loop optimized prev_step steps
          else if can_merge prev step then
            optimize_loop (butlast optimized @ [merge_steps prev step])
              (Some (merge_steps prev step)) steps
          else optimize_loop (optimized @ [step]) (Some step) steps)"

definition optimize_steps :: "wf_step list \<Rightarrow> wf_step list" where
  "optimize_steps steps = optimize_loop [] None steps"

subsection \<open>Workflow generation\<close>

text \<open>\<open>{..., **session.metadata}\<close>\<close>

definition dict_merge :: "pydict \<Rightarrow> pydict \<Rightarrow> pydict" where
  "dict_merge d e = foldl (\<lambda>acc (k, v). dict_set acc k v) d e"

text \<open>
  The result is \<open>None\<close> when variable extraction raises or loop detection does not return.
\<close>

definition generate_workflow ::
  "generator_config \<Rightarrow> (pyval list \<Rightarrow> pyval list) \<Rightarrow> RecordingSession \<Rightarrow> string option
     \<Rightarrow> workflow option" where
  "generate_workflow cfg set_order session workflow_name =
     (case (if extract_variables_enabled cfg then extract_variables set_order (actions session)
            else Some []) of
        None \<Rightarrow> None
      | Some vars \<Rightarrow>
          (let steps = convert_actions_to_steps (actions session) vars in
           case (if detect_loops cfg then detect_and_optimize_loops steps else Some steps) of
             None \<Rightarrow> None
           | Some steps' \<Rightarrow>
               Some \<lparr>wf_name = (case workflow_name of
                                  None \<Rightarrow> name session
                                | Some n \<Rightarrow> if n = [] then name session else n),
                     wf_description = ''Generated from recording session: '' @ session_id session,
                     wf_version = ''1.0'',
                     wf_metadata =
                       dict_merge
                         [(''generated_from'', PStr (session_id session)),
                          (''generated_at'', py_opt PFloat (ended_at session)),
                          (''action_count'', PInt (int (length (actions session))))]
                         (metadata session),
                     wf_variables = vars,
                     wf_steps = (if optimize cfg then optimize_steps steps' else steps')\<rparr>))"


section \<open>Orchestrator: security-gated dispatch (integration/orchestrator.py)\<close>

text \<open>
  Calls that leave the orchestrator are recorded, in order, in a trace. The trace is also
  what the external collaborators (vision, memory) can depend on: their answers are
  functions of the calls made so far and of the arguments.
\<close>

datatype event =
    Validated string string
  | MarkedStart string string
  | Dispatched string string pydict
  | VisionAnalyze pyval pyval
  | MemorySearch pyval pyval
  | MemoryStoreScreen pyval pyval pyval
  | MemoryStoreAction string string pydict bool
  | Captured string string pydict

text \<open>
  The collaborators. A result \<open>Inl msg\<close> stands for a raised exception \<open>e\<close> with
  \<open>str(e) = msg\<close>. \<open>validate_input value input_type\<close> returns \<open>(is_valid, reason)\<close>.
  \<open>time_source\<close> is the time source of the recorder.
\<close>

record collaborators =
  validate_input :: "string \<Rightarrow> string \<Rightarrow> string + (bool \<times> string)"
  analyze_screen :: "event list \<Rightarrow> pyval \<Rightarrow> pyval \<Rightarrow> string + pyval"
  search_memories :: "event list \<Rightarrow> pyval \<Rightarrow> pyval \<Rightarrow> string + pyval"
  store_screen_memory :: "event list \<Rightarrow> pyval \<Rightarrow> pyval \<Rightarrow> pyval \<Rightarrow> string + pyval"
  time_source :: "nat \<Rightarrow> real"

text \<open>
  The state of an \<open>AIOrchestrator\<close>. \<open>security\<close>, \<open>vision\<close> and \<open>memory\<close> say
  whether the lazily loaded component is available (the property returns an object rather
  than \<open>None\<close>); \<open>recorder\<close> is the loaded \<open>WorkflowCapture\<close>, if any.
\<close>

record orchestrator =
  security :: bool
  vision :: bool
  memory :: bool
  recorder :: "WorkflowCapture option"
  orch_is_recording :: bool
  current_session_id :: "string option"
  trace :: "event list"

text \<open>\<open>s.lower()\<close> on ASCII letters, and \<open>sub in s\<close>.\<close>

definition lower_char :: "char \<Rightarrow> char" where
  "lower_char c =
     (case map_of (zip ''ABCDEFGHIJKLMNOPQRSTUVWXYZ'' ''abcdefghijklmnopqrstuvwxyz'') c of
        None \<Rightarrow> c
      | Some l \<Rightarrow> l)"

definition lower :: "string \<Rightarrow> string" where
  "lower s = map lower_char s"

fun contains :: "string \<Rightarrow> string \<Rightarrow> bool" where
  "contains sub [] = (sub = [])"
| "contains sub (c # cs) = (take (length sub) (c # cs) = sub \<or> contains sub cs)"

definition detect_input_type :: "string \<Rightarrow> string" where
  "detect_input_type param_name =
     (let param_lower = lower param_name in
      if contains ''url'' param_lower \<or> contains ''link'' param_lower then ''url''
      else if contains ''path'' param_lower \<or> contains ''file'' param_lower then ''path''
      else if contains ''command'' param_lower \<or> contains ''cmd'' param_lower then ''command''
      else if contains ''query'' param_lower \<or> contains ''sql'' param_lower then ''sql''
      else if contains ''html'' param_lower \<or> contains ''content'' param_lower then ''html''
      else ''general'')"

text \<open>
  The loop of \<open>_validate_action\<close> over \<open>parameters.items()\<close>. An exception of the
  validator is caught and gives \<open>(False, str(e))\<close>.
\<close>

fun validate_params ::
  "collaborators \<Rightarrow> orchestrator \<Rightarrow> (string \<times> pyval) list \<Rightarrow> (bool \<times> string option) \<times> orchestrator" where
  "validate_params c orch [] = ((True, None), orch)"
| "validate_params c orch ((param_name, param_value) # rest) =
     (case param_value of
        PStr s \<Rightarrow>
          (let input_type = detect_input_type param_name;
               orch' = orch\<lparr>trace := trace orch @ [Validated s input_type]\<rparr>
           in case validate_input c s input_type of
                Inl msg \<Rightarrow> ((False, Some msg), orch')
              | Inr (is_valid, reason) \<Rightarrow>
                  if \<not> is_valid
                  then ((False, Some (''Parameter '' @ [CHR 0x27] @ param_name @ [CHR 0x27] @
                                        '' validation failed: '' @ reason)), orch')
                  else validate_params c orch' rest)
      | _ \<Rightarrow> validate_params c orch rest)"

definition validate_action ::
  "collaborators \<Rightarrow> orchestrator \<Rightarrow> string \<Rightarrow> string \<Rightarrow> pydict
     \<Rightarrow> (bool \<times> string option) \<times> orchestrator" where
  "validate_action c orch atype tool params = validate_params c orch params"

text \<open>\<open>f"{x}"\<close> for a string or \<open>None\<close>\<close>

definition opt_str :: "string option \<Rightarrow> string" where
  "opt_str x = (case x of None \<Rightarrow> ''None'' | Some s \<Rightarrow> s)"

definition failure :: "string \<Rightarrow> pydict" where
  "failure msg = [(''success'', PBool False), (''error'', PStr msg)]"

text \<open>
  The domain handlers. An exception of a collaborator is caught by \<open>_execute_action\<close>,
  which returns the failure carrying its message.
\<close>

definition execute_vision_action ::
  "collaborators \<Rightarrow> orchestrator \<Rightarrow> string \<Rightarrow> pydict \<Rightarrow> pydict \<times> orchestrator" where
  "execute_vision_action c orch tool params =
     (if \<not> vision orch then (failure ''Vision AI not available'', orch)
      else if tool = ''analyze_screen'' then
        (let shot = py_get params ''screenshot_path'' PNone;
             prompt = py_get params ''prompt'' PNone;
             orch' = orch\<lparr>trace := trace orch @ [VisionAnalyze shot prompt]\<rparr>
         in case analyze_screen c (trace orch) shot prompt of
              Inl msg \<Rightarrow> (failure msg, orch')
            | Inr res \<Rightarrow> ([(''success'', PBool True), (''result'', res)], orch'))
      else (failure (''Unknown vision tool: '' @ tool), orch))"

definition execute_memory_action ::
  "collaborators \<Rightarrow> orchestrator \<Rightarrow> string \<Rightarrow> pydict \<Rightarrow> pydict \<times> orchestrator" where
  "execute_memory_action c orch tool params =
     (if \<not> memory orch then (failure ''Memory system not available'', orch)
      else if tool = ''search'' then
        (let query = py_get params ''query'' PNone;
             limit = py_get params ''limit'' (PInt 10);
             orch' = orch\<lparr>trace := trace orch @ [MemorySearch query limit]\<rparr>
         in case search_memories c (trace orch) query limit of
              Inl msg \<Rightarrow> (failure msg, orch')
            | Inr res \<Rightarrow> ([(''success'', PBool True), (''results'', res)], orch'))
      else if tool = ''store_screen'' then
        (let content = py_get params ''content'' PNone;
             provider = py_get params ''ai_provider'' (PStr ''gemini'');
             analysis = py_get params ''ai_analysis'' PNone;
             orch' = orch\<lparr>trace := trace orch @ [MemoryStoreScreen content provider analysis]\<rparr>
         in case store_screen_memory c (trace orch) content provider analysis of
              Inl msg \<Rightarrow> (failure msg, orch')
            | Inr mem_id \<Rightarrow> ([(''success'', PBool True), (''memory_id'', mem_id)], orch'))
      else (failure (''Unknown memory tool: '' @ tool), orch))"

definition execute_browser_action ::
  "collaborators \<Rightarrow> orchestrator \<Rightarrow> string \<Rightarrow> pydict \<Rightarrow> pydict \<times> orchestrator" where
  "execute_browser_action c orch tool params =
     (failure ''Browser control not yet implemented'', orch)"

definition execute_hands_action ::
  "collaborators \<Rightarrow> orchestrator \<Rightarrow> string \<Rightarrow> pydict \<Rightarrow> pydict \<times> orchestrator" where
  "execute_hands_action c orch tool params =
     (failure ''Desktop control not yet implemented'', orch)"

text \<open>\<open>_execute_action\<close>: the dispatch by action type.\<close>

definition execute_action ::
  "collaborators \<Rightarrow> orchestrator \<Rightarrow> string \<Rightarrow> string \<Rightarrow> pydict \<Rightarrow> pydict \<times> orchestrator" where
  "execute_action c orch atype tool params =
     (let orch' = orch\<lparr>trace := trace orch @ [Dispatched atype tool params]\<rparr> in
      if atype = ''vision'' then execute_vision_action c orch' tool params
      else if atype = ''memory'' then execute_memory_action c orch' tool params
      else if atype = ''browser'' then execute_browser_action c orch' tool params
      else if atype = ''hands'' then execute_hands_action c orch' tool params
      else (failure (''Unknown action type: '' @ atype), orch'))"

text \<open>
  \<open>_store_in_memory\<close>: the call \<open>store_action_memory(content, action_type=tool_name,
  success, mcp_server=action_type)\<close>, whose content is the text
  \<open>{action_type}.{tool_name}: {parameters}\<close>, kept here as its three parts. An exception
  of the call is caught and logged.
\<close>

definition store_in_memory ::
  "orchestrator \<Rightarrow> string \<Rightarrow> string \<Rightarrow> pydict \<Rightarrow> pydict \<Rightarrow> orchestrator" where
  "store_in_memory orch atype tool params res =
     (if \<not> memory orch then orch
      else orch\<lparr>trace := trace orch @
             [MemoryStoreAction atype tool params (truthy (py_get res ''success'' (PBool True)))]\<rparr>)"

text \<open>The recording hooks: the calls made when \<open>self.recorder and self.is_recording\<close>.\<close>

definition hook_mark_start ::
  "collaborators \<Rightarrow> orchestrator \<Rightarrow> string \<Rightarrow> string \<Rightarrow> orchestrator" where
  "hook_mark_start c orch atype tool =
     (case recorder orch of
        None \<Rightarrow> orch
      | Some w \<Rightarrow>
          if orch_is_recording orch
          then orch\<lparr>recorder := Some (mark_action_start (time_source c) w atype tool),
                    trace := trace orch @ [MarkedStart atype tool]\<rparr>
          else orch)"

definition hook_capture ::
  "collaborators \<Rightarrow> orchestrator \<Rightarrow> string \<Rightarrow> string \<Rightarrow> pydict \<Rightarrow> pydict \<Rightarrow> orchestrator" where
  "hook_capture c orch atype tool params res =
     (case recorder orch of
        None \<Rightarrow> orch
      | Some w \<Rightarrow>
          if orch_is_recording orch
          then orch\<lparr>recorder :=
                      Some (snd (capture_action (time_source c) w atype tool params (Some res)
                                   (truthy (py_get res ''success'' (PBool True)))
                                   (case py_get res ''error'' PNone of
                                      PStr e \<Rightarrow> Some e
                                    | _ \<Rightarrow> None))),
                    trace := trace orch @ [Captured atype tool params]\<rparr>
          else orch)"

definition execute_secure_action ::
  "collaborators \<Rightarrow> orchestrator \<Rightarrow> string \<Rightarrow> string \<Rightarrow> pydict \<Rightarrow> pydict \<times> orchestrator" where
  "execute_secure_action c orch atype tool params =
     (let (verdict, orch1) =
            (if security orch then validate_action c orch atype tool params
             else ((True, None), orch))
      in if \<not> fst verdict then
           ([(''success'', PBool False),
             (''error'', PStr (''Security validation failed: '' @ opt_str (snd verdict))),
             (''blocked'', PBool True)], orch1)
         else
           let orch2 = hook_mark_start c orch1 atype tool;
               (res, orch3) = execute_action c orch2 atype tool params;
               orch4 = hook_capture c orch3 atype tool params res;
               orch5 = (if memory orch4 \<and> truthy (py_get res ''success'' (PBool True))
                        then store_in_memory orch4 atype tool params res
                        else orch4)
           in (res, orch5))"

text \<open>Recording control. \<open>Inl msg\<close> is the \<open>RuntimeError\<close> raised without a recorder.\<close>

definition orch_start_recording ::
  "collaborators \<Rightarrow> orchestrator \<Rightarrow> string \<Rightarrow> pydict option \<Rightarrow> (string + string) \<times> orchestrator" where
  "orch_start_recording c orch session_name md =
     (case recorder orch of
        None \<Rightarrow> (Inl ''Workflow recorder not available'', orch)
      | Some w \<Rightarrow>
          let (sid, w') = start_recording (time_source c) w session_name md
          in (Inr sid, orch\<lparr>recorder := Some w', orch_is_recording := True,
                             current_session_id := Some sid\<rparr>))"

definition orch_stop_recording ::
  "collaborators \<Rightarrow> orchestrator \<Rightarrow> string option \<times> orchestrator" where
  "orch_stop_recording c orch =
     (case recorder orch of
        None \<Rightarrow> (None, orch)
      | Some w \<Rightarrow>
          if \<not> orch_is_recording orch then (None, orch)
          else
            let (sid, w') = stop_recording (time_source c) w
            in (sid, orch\<lparr>recorder := Some w', orch_is_recording := False,
                           current_session_id := None\<rparr>))"

text \<open>The events a call added to the trace.\<close>

definition new_events :: "orchestrator \<Rightarrow> orchestrator \<Rightarrow> event list" where
  "new_events orch orch' = drop (length (trace orch)) (trace orch')"

fun is_validation :: "event \<Rightarrow> bool" where
  "is_validation (Validated s t) = True"
| "is_validation _ = False"

fun is_str :: "pyval \<Rightarrow> bool" where
  "is_str (PStr s) = True"
| "is_str _ = False"


section \<open>Agent: decision and learning loop (integration/autonomous\_agent.py)\<close>

text \<open>
  Exceptions of the agent's own code, with their message. The values that come from the
  collaborators are dynamically typed; wherever the source applies \<open>.get\<close>, iterates or
  compares, a value of the wrong kind raises, and these raises are branches of the model.
\<close>

datatype exn = RuntimeError string | TypeError string | AttributeError string

fun exn_str :: "exn \<Rightarrow> string" where
  "exn_str (RuntimeError msg) = msg"
| "exn_str (TypeError msg) = msg"
| "exn_str (AttributeError msg) = msg"

text \<open>
  An action of a plan: the dictionary with the keys \<open>action_type\<close>, \<open>tool_name\<close> and
  \<open>parameters\<close>, typed as the arguments of \<open>execute_secure_action\<close>. A plan: the
  dictionary \<open>action_plan\<close> with its five fixed keys.
\<close>

record plan_action =
  pa_action_type :: string
  pa_tool_name :: string
  pa_parameters :: pydict

record action_plan =
  plan_goal :: string
  plan_confidence :: pyval
  plan_strategy :: "string option"
  plan_actions :: "plan_action list"
  plan_fallback_actions :: "plan_action list"

record agent =
  agent_orchestrator :: orchestrator
  confidence_threshold :: real
  max_retries :: int
  learning_enabled :: bool
  task_history :: "pydict list"

definition action_py :: "plan_action \<Rightarrow> pyval" where
  "action_py a = PDict [(''action_type'', PStr (pa_action_type a)),
                        (''tool_name'', PStr (pa_tool_name a)),
                        (''parameters'', PDict (pa_parameters a))]"

definition plan_py :: "action_plan \<Rightarrow> pyval" where
  "plan_py p = PDict [(''goal'', PStr (plan_goal p)),
                      (''confidence'', plan_confidence p),
                      (''strategy'', py_opt PStr (plan_strategy p)),
                      (''actions'', PList (map action_py (plan_actions p))),
                      (''fallback_actions'', PList (map action_py (plan_fallback_actions p)))]"

text \<open>
  \<open>for x in v\<close> followed by \<open>x.get(...)\<close>: the elements of a list must be dictionaries;
  the elements of a non-empty string or dictionary are strings, which have no \<open>get\<close>;
  other values cannot be iterated.
\<close>

fun dicts_of :: "pyval list \<Rightarrow> exn + pydict list" where
  "dicts_of [] = Inr []"
| "dicts_of (PDict d # vs) = (case dicts_of vs of Inl e \<Rightarrow> Inl e | Inr ds \<Rightarrow> Inr (d # ds))"
| "dicts_of (v # vs) = Inl (AttributeError ''object has no attribute get'')"

fun iter_dicts :: "pyval \<Rightarrow> exn + pydict list" where
  "iter_dicts (PList vs) = dicts_of vs"
| "iter_dicts (PStr s) =
     (if s = [] then Inr [] else Inl (AttributeError ''object has no attribute get''))"
| "iter_dicts (PDict d) =
     (if d = [] then Inr [] else Inl (AttributeError ''object has no attribute get''))"
| "iter_dicts _ = Inl (TypeError ''object is not iterable'')"

text \<open>\<open>v >= t\<close> for a number \<open>t\<close>: a value that is not a number raises \<open>TypeError\<close>.\<close>

definition py_ge_real :: "pyval \<Rightarrow> real \<Rightarrow> exn + bool" where
  "py_ge_real v t =
     (case num_of v of None \<Rightarrow> Inl (TypeError ''>= not supported'') | Some x \<Rightarrow> Inr (t \<le> x))"

definition extract_actions_from_memory :: "pydict \<Rightarrow> plan_action list" where
  "extract_actions_from_memory mem =
     [\<lparr>pa_action_type = ''memory'', pa_tool_name = ''replay_workflow'',
       pa_parameters = [(''memory_id'', py_get mem ''id'' PNone)]\<rparr>]"

text \<open>
  One recommended action. Its \<open>type\<close> and \<open>tool\<close> are strings and its \<open>parameters\<close>
  a dictionary, as \<open>execute_secure_action\<close> declares them; an entry of another kind
  counts as a \<open>TypeError\<close>.
\<close>

definition recommended_action :: "pydict \<Rightarrow> exn + plan_action" where
  "recommended_action action =
     (case (py_get action ''type'' (PStr ''browser''), py_get action ''tool'' (PStr ''click''),
            py_get action ''parameters'' (PDict [])) of
        (PStr ty, PStr tool, PDict ps) \<Rightarrow>
          Inr \<lparr>pa_action_type = ty, pa_tool_name = tool, pa_parameters = ps\<rparr>
      | _ \<Rightarrow> Inl (TypeError ''recommended action is not well formed''))"

fun recommended_actions_of :: "pydict list \<Rightarrow> exn + plan_action list" where
  "recommended_actions_of [] = Inr []"
| "recommended_actions_of (action # rest) =
     (case recommended_action action of
        Inl e \<Rightarrow> Inl e
      | Inr a \<Rightarrow> (case recommended_actions_of rest of Inl e \<Rightarrow> Inl e | Inr as \<Rightarrow> Inr (a # as)))"

definition generate_actions_from_analysis :: "pydict \<Rightarrow> exn + plan_action list" where
  "generate_actions_from_analysis analysis =
     (case iter_dicts (py_get analysis ''recommended_actions'' (PList [])) of
        Inl e \<Rightarrow> Inl e
      | Inr recommended \<Rightarrow> recommended_actions_of recommended)"

definition generate_cautious_actions :: "pydict \<Rightarrow> plan_action list" where
  "generate_cautious_actions analysis =
     [\<lparr>pa_action_type = ''vision'', pa_tool_name = ''analyze_screen'',
       pa_parameters =
         [(''prompt'', PStr ''Provide detailed analysis of all interactive elements'')]\<rparr>]"

definition generate_fallback_actions :: "string \<Rightarrow> plan_action list" where
  "generate_fallback_actions goal =
     [\<lparr>pa_action_type = ''memory'', pa_tool_name = ''search'',
       pa_parameters =
         [(''query'', PStr (''alternative approaches for '' @ goal)), (''limit'', PInt 3)]\<rparr>]"

text \<open>\<open>_decide_action\<close>, for the threshold of the agent.\<close>

definition decide_action :: "real \<Rightarrow> string \<Rightarrow> pydict \<Rightarrow> pydict list \<Rightarrow> exn + action_plan" where
  "decide_action threshold goal analysis similar_experiences =
     (let confidence = py_get analysis ''confidence'' (PFloat 0.5);
          successful_experiences =
            filter (\<lambda>exp. truthy (py_get exp ''success'' (PBool False))) similar_experiences;
          action_plan = \<lparr>plan_goal = goal, plan_confidence = confidence, plan_strategy = None,
                         plan_actions = [], plan_fallback_actions = []\<rparr>
      in case py_ge_real confidence threshold of
           Inl e \<Rightarrow> Inl e
         | Inr high \<Rightarrow>
             if high then
               (case successful_experiences of
                  first # others \<Rightarrow>
                    Inr (action_plan\<lparr>plan_strategy := Some ''proven'',
                                      plan_actions := extract_actions_from_memory first\<rparr>)
                | [] \<Rightarrow>
                    (case generate_actions_from_analysis analysis of
                       Inl e \<Rightarrow> Inl e
                     | Inr acts \<Rightarrow>
                         Inr (action_plan\<lparr>plan_strategy := Some ''exploratory'',
                                           plan_actions := acts\<rparr>)))
             else
               Inr (action_plan\<lparr>plan_strategy := Some ''cautious'',
                                 plan_actions := generate_cautious_actions analysis,
                                 plan_fallback_actions := generate_fallback_actions goal\<rparr>))"

text \<open>\<open>_execute_fallback\<close>\<close>

fun execute_fallback ::
  "collaborators \<Rightarrow> orchestrator \<Rightarrow> plan_action list \<Rightarrow> pydict \<times> orchestrator" where
  "execute_fallback c orch [] =
     ([(''success'', PBool False), (''error'', PStr ''All fallback actions failed'')], orch)"
| "execute_fallback c orch (a # rest) =
     (let (res, orch') =
            execute_secure_action c orch (pa_action_type a) (pa_tool_name a) (pa_parameters a)
      in if truthy (py_get res ''success'' PNone) then (res, orch')
         else execute_fallback c orch' rest)"

text \<open>
  The \<open>for\<close> loop of \<open>_execute_action_plan\<close> over the remaining primary actions, with
  the list \<open>results\<close> built so far; it yields the final \<open>success\<close> and \<open>results\<close>.
\<close>

fun run_plan_actions ::
  "collaborators \<Rightarrow> orchestrator \<Rightarrow> plan_action list \<Rightarrow> plan_action list \<Rightarrow> pydict list
     \<Rightarrow> (bool \<times> pydict list) \<times> orchestrator" where
  "run_plan_actions c orch fallback [] results = ((True, results), orch)"
| "run_plan_actions c orch fallback (a # rest) results =
     (let (res, orch1) =
            execute_secure_action c orch (pa_action_type a) (pa_tool_name a) (pa_parameters a);
          results1 = results @ [res]
      in if \<not> truthy (py_get res ''success'' (PBool False)) then
           (if fallback \<noteq> [] then
              (let (fallback_result, orch2) = execute_fallback c orch1 fallback
               in ((False, results1 @ [fallback_result]), orch2))
            else ((False, results1), orch1))
         else run_plan_actions c orch1 fallback rest results1)"

definition execute_action_plan ::
  "collaborators \<Rightarrow> orchestrator \<Rightarrow> action_plan \<Rightarrow> pydict \<times> orchestrator" where
  "execute_action_plan c orch plan =
     (let ((ok, results), orch') =
            run_plan_actions c orch (plan_fallback_actions plan) (plan_actions plan) []
      in ([(''success'', PBool ok), (''strategy'', py_opt PStr (plan_strategy plan)),
           (''results'', PList (map PDict results))], orch'))"

text \<open>The prompt of \<open>_analyze_situation\<close>.\<close>

definition analysis_prompt :: "string \<Rightarrow> string" where
  "analysis_prompt goal =
     [CHR 0x0A] @
     ''        Analyze this screen in the context of the following goal: '' @ goal @ [CHR 0x0A] @
     [CHR 0x0A] @
     ''        Please identify:'' @ [CHR 0x0A] @
     ''        1. What is currently visible on the screen'' @ [CHR 0x0A] @
     ''        2. What UI elements are available for interaction'' @ [CHR 0x0A] @
     ''        3. What actions would help achieve the goal'' @ [CHR 0x0A] @
     ''        4. Any obstacles or issues present'' @ [CHR 0x0A] @
     ''        5. Confidence level (0.0-1.0) for recommended actions'' @ [CHR 0x0A] @
     ''        ''"

text \<open>
  The text of an error entry in a message; an error entry is a string, or absent.
\<close>

fun error_text :: "pyval \<Rightarrow> string" where
  "error_text (PStr s) = s"
| "error_text PNone = ''None''"
| "error_text (PBool b) = (if b then ''True'' else ''False'')"
| "error_text (PInt i) = show_int i"
| "error_text _ = ''...''"

definition analyze_situation ::
  "collaborators \<Rightarrow> orchestrator \<Rightarrow> string \<Rightarrow> string \<Rightarrow> (exn + pyval) \<times> orchestrator" where
  "analyze_situation c orch screenshot goal =
     (let (res, orch') =
            execute_secure_action c orch ''vision'' ''analyze_screen''
              [(''screenshot_path'', PStr screenshot), (''prompt'', PStr (analysis_prompt goal))]
      in if truthy (py_get res ''success'' PNone)
         then (Inr (py_get res ''result'' (PDict [])), orch')
         else (Inl (RuntimeError (''Vision analysis failed: '' @
                                  error_text (py_get res ''error'' PNone))), orch'))"

definition find_similar_experiences ::
  "collaborators \<Rightarrow> orchestrator \<Rightarrow> string \<Rightarrow> pyval \<times> orchestrator" where
  "find_similar_experiences c orch goal =
     (let (res, orch') =
            execute_secure_action c orch ''memory'' ''search''
              [(''query'', PStr goal), (''limit'', PInt 5)]
      in if truthy (py_get res ''success'' PNone)
         then ((case py_get res ''results'' (PDict []) of
                  PDict memories \<Rightarrow> py_get memories ''results'' (PList [])
                | _ \<Rightarrow> PList []), orch')
         else (PList [], orch'))"

definition learn_from_result ::
  "collaborators \<Rightarrow> orchestrator \<Rightarrow> string \<Rightarrow> action_plan \<Rightarrow> pydict \<Rightarrow> orchestrator" where
  "learn_from_result c orch goal plan res =
     snd (execute_secure_action c orch ''memory'' ''store_workflow''
            [(''content'', PStr (''Goal: '' @ goal @ '', Strategy: '' @ opt_str (plan_strategy plan))),
             (''workflow_name'', PStr (''auto_'' @ replace_spaces goal)),
             (''steps'', PList (map action_py (plan_actions plan))),
             (''success'', py_get res ''success'' (PBool False)),
             (''metadata'', PDict [(''confidence'', plan_confidence plan),
                                   (''strategy'', py_opt PStr (plan_strategy plan))])])"

definition cycle_failure :: "exn \<Rightarrow> pydict" where
  "cycle_failure e = [(''success'', PBool False), (''error'', PStr (exn_str e))]"

text \<open>
  \<open>analyze_and_act\<close>. The analysis must be a dictionary and the recalled experiences a
  list of dictionaries when \<open>_decide_action\<close> reads them; every exception ends the cycle
  with the failure result.
\<close>

definition analyze_and_act ::
  "collaborators \<Rightarrow> agent \<Rightarrow> string \<Rightarrow> string \<Rightarrow> pydict \<times> agent" where
  "analyze_and_act c ag screenshot goal =
     (case analyze_situation c (agent_orchestrator ag) screenshot goal of
        (Inl e, o1) \<Rightarrow> (cycle_failure e, ag\<lparr>agent_orchestrator := o1\<rparr>)
      | (Inr analysis, o1) \<Rightarrow>
          (let (similar, o2) = find_similar_experiences c o1 goal in
           case (case analysis of
                   PDict a \<Rightarrow>
                     (case iter_dicts similar of
                        Inl e \<Rightarrow> Inl e
                      | Inr experiences \<Rightarrow>
                          decide_action (confidence_threshold ag) goal a experiences)
                 | _ \<Rightarrow> Inl (AttributeError ''object has no attribute get'')) of
             Inl e \<Rightarrow> (cycle_failure e, ag\<lparr>agent_orchestrator := o2\<rparr>)
           | Inr plan \<Rightarrow>
               (let (res, o3) = execute_action_plan c o2 plan;
                    o4 = (if learning_enabled ag then learn_from_result c o3 goal plan res else o3)
                in ([(''success'', PBool True), (''goal'', PStr goal), (''analysis'', analysis),
                     (''action_plan'', plan_py plan), (''result'', PDict res),
                     (''learned'', PBool (learning_enabled ag))],
                    ag\<lparr>agent_orchestrator := o4\<rparr>))))"

text \<open>
  \<open>_check_goal_achievement\<close>: \<open>result.get('success', False) and
  result.get('confidence', 0) > 0.8\<close>.
\<close>

definition check_goal_achievement :: "string \<Rightarrow> pydict \<Rightarrow> exn + bool" where
  "check_goal_achievement goal res =
     (if \<not> truthy (py_get res ''success'' (PBool False)) then Inr False
      else case num_of (py_get res ''confidence'' (PInt 0)) of
             None \<Rightarrow> Inl (TypeError ''> not supported'')
           | Some x \<Rightarrow> Inr (0.8 < x))"

definition final_result :: "bool \<Rightarrow> string \<Rightarrow> int \<Rightarrow> pydict list \<Rightarrow> pydict" where
  "final_result goal_achieved goal iteration history =
     [(''success'', PBool goal_achieved), (''goal'', PStr goal), (''iterations'', PInt iteration),
      (''history'', PList (map PDict history))]"

text \<open>
  The \<open>while\<close> loop of \<open>execute_goal_autonomously\<close>, with its local variables as
  arguments. \<open>Inl e\<close> is an exception that leaves the function.
\<close>

function goal_loop ::
  "collaborators \<Rightarrow> string \<Rightarrow> int \<Rightarrow> agent \<Rightarrow> int \<Rightarrow> string option \<Rightarrow> bool \<Rightarrow> pydict list
     \<Rightarrow> (exn + pydict) \<times> agent" where
  "goal_loop c goal max_iterations ag iteration current_screenshot goal_achieved history =
     (if iteration < max_iterations \<and> \<not> goal_achieved then
        (let screenshot = (case current_screenshot of
                             None \<Rightarrow> ''/tmp/current_screen.png''
                           | Some s \<Rightarrow> if s = [] then ''/tmp/current_screen.png'' else s);
             cycle = analyze_and_act c ag screenshot goal
         in case check_goal_achievement goal (fst cycle) of
              Inl e \<Rightarrow> (Inl e, snd cycle)
            | Inr achieved \<Rightarrow>
                if achieved
                then (Inr (final_result True goal (iteration + 1) (history @ [fst cycle])), snd cycle)
                else goal_loop c goal max_iterations (snd cycle) (iteration + 1) None achieved
                       (history @ [fst cycle]))
      else (Inr (final_result goal_achieved goal iteration history), ag))"
  by pat_completeness auto
termination
  by (relation "measure (\<lambda>(c, goal, max_iterations, ag, iteration, rest).
                  nat (max_iterations - iteration))") auto

declare goal_loop.simps [simp del]

definition execute_goal_autonomously ::
  "collaborators \<Rightarrow> agent \<Rightarrow> string \<Rightarrow> string option \<Rightarrow> int \<Rightarrow> (exn + pydict) \<times> agent" where
  "execute_goal_autonomously c ag goal initial_screenshot max_iterations =
     goal_loop c goal max_iterations ag 0 initial_screenshot False []"


section \<open>Concrete inputs\<close>

definition example_now :: "nat \<Rightarrow> real" where
  "example_now k = 100 + of_nat k"

definition example_capture :: WorkflowCapture where
  "example_capture = initial_capture ''/rec'' False Map.empty"

definition example_ops :: "recorder_op list" where
  "example_ops =
     [CaptureAction ''browser'' ''click'' [(''selector'', PStr ''#a'')] None True None,
      MarkActionStart ''hands'' ''type'',
      CaptureAction ''hands'' ''type'' [(''text'', PStr ''hi''), (''count'', PInt 2)] None False
        (Some ''boom'')]"

definition example_active :: WorkflowCapture where
  "example_active =
     recorder_run example_now
       (snd (start_recording example_now example_capture ''first'' None)) example_ops"

definition example_action :: "string \<Rightarrow> string \<Rightarrow> pydict \<Rightarrow> bool \<Rightarrow> CapturedAction" where
  "example_action atype tool params ok =
     \<lparr>timestamp = 1, action_type = atype, tool_name = tool, parameters = params, result = None,
      screenshot_path = None, duration_ms = None, success = ok, error = None\<rparr>"

definition example_session :: "CapturedAction list \<Rightarrow> RecordingSession" where
  "example_session acts =
     \<lparr>session_id = ''session_1_demo'', name = ''demo'', started_at = 0, ended_at = Some 5,
      actions = acts, metadata = []\<rparr>"

text \<open>A click that succeeds, then the same click failing.\<close>

definition example_failed_actions :: "CapturedAction list" where
  "example_failed_actions =
     [example_action ''browser'' ''click'' [(''selector'', PStr ''#a'')] True,
      example_action ''browser'' ''click'' [(''selector'', PStr ''#a'')] False]"

text \<open>
  Where a set has a single element, its iteration order is that element; the examples
  with such sets use the insertion order.
\<close>

definition insertion_order :: "pyval list \<Rightarrow> pyval list" where
  "insertion_order xs = xs"

definition example_step :: "nat \<Rightarrow> string \<Rightarrow> wf_step" where
  "example_step n a = ActionStep n a [] None None None"

definition example_aaa :: "wf_step list" where
  "example_aaa = [example_step 1 ''A'', example_step 2 ''A'', example_step 3 ''A'']"

definition example_ababab :: "wf_step list" where
  "example_ababab =
     [example_step 1 ''A'', example_step 2 ''B'', example_step 3 ''A'', example_step 4 ''B'',
      example_step 5 ''A'', example_step 6 ''B'']"





text \<open>
  A validator that rejects commands containing \<open>rm -rf\<close>, a vision analysis with
  confidence 0.95 that recommends a memory search, and a memory without entries.
\<close>

definition example_collab :: collaborators where
  "example_collab =
     \<lparr>validate_input = (\<lambda>text input_type.
          if input_type = ''command'' \<and> contains ''rm -rf'' text
          then Inr (False, ''Dangerous command pattern detected'')
          else Inr (True, ''ok'')),
      analyze_screen = (\<lambda>tr shot prompt.
          Inr (PDict [(''confidence'', PFloat 0.95),
                      (''recommended_actions'',
                         PList [PDict [(''type'', PStr ''memory''), (''tool'', PStr ''search''),
                                       (''parameters'', PDict [(''query'', PStr ''docs'')])]])])),
      search_memories = (\<lambda>tr query limit. Inr (PDict [(''results'', PList [])])),
      store_screen_memory = (\<lambda>tr content provider analysis. Inr (PStr ''mem_1'')),
      time_source = example_now\<rparr>"

definition example_orch :: orchestrator where
  "example_orch =
     \<lparr>security = True, vision = True, memory = True, recorder = Some example_active,
      orch_is_recording = True, current_session_id = Some ''session_100_first'', trace = []\<rparr>"

definition example_rm_params :: pydict where
  "example_rm_params = [(''command'', PStr ''rm -rf /'')]"

definition example_nested_params :: pydict where
  "example_nested_params = [(''command'', PList [PStr ''rm -rf /'']), (''count'', PInt 3)]"

text \<open>An orchestrator without recorder, one of them also without vision; an agent.\<close>

definition example_plain_orch :: orchestrator where
  "example_plain_orch =
     \<lparr>security = True, vision = True, memory = True, recorder = None,
      orch_is_recording = False, current_session_id = None, trace = []\<rparr>"


definition example_agent :: agent where
  "example_agent =
     \<lparr>agent_orchestrator = example_plain_orch, confidence_threshold = 0.7, max_retries = 3,
      learning_enabled = True, task_history = []\<rparr>"



text \<open>
  A cycle result that reports success, whose plan has a confidence above 0.8 and whose
  plan execution succeeded.
\<close>

definition confident_success :: "pyval \<Rightarrow> bool" where
  "confident_success cycle =
     (case cycle of
        PDict d \<Rightarrow>
          py_get d ''success'' PNone = PBool True \<and>
          (case py_get d ''action_plan'' PNone of
             PDict p \<Rightarrow> (case num_of (py_get p ''confidence'' PNone) of
                           None \<Rightarrow> False | Some x \<Rightarrow> 0.8 < x)
           | _ \<Rightarrow> False) \<and>
          (case py_get d ''result'' PNone of
             PDict e \<Rightarrow> py_get e ''success'' PNone = PBool True
           | _ \<Rightarrow> False)
      | _ \<Rightarrow> False)"


section \<open>Recorder: round trip and single active session\<close>





















section \<open>Generator: failed actions\<close>

lemma convert_actions_length: "length (convert_actions_to_steps acts vars) = length acts"
proof -
  have "length [1..<length acts + 1] = length acts"
    unfolding length_upt by arith
  then show ?thesis
    unfolding convert_actions_to_steps_def length_map length_zip by simp
qed

lemma convert_actions_nth:
  assumes "i < length acts"
  shows "convert_actions_to_steps acts vars ! i = convert_action vars (Suc i) (acts ! i)"
proof -
  have "length [1..<length acts + 1] = length acts"
    unfolding length_upt by arith
  moreover have "[1..<length acts + 1] ! i = 1 + i"
    by (rule nth_upt) (use assms in arith)
  ultimately show ?thesis
    using assms unfolding convert_actions_to_steps_def by (simp only: nth_map nth_zip length_zip min.idem) simp
qed

theorem failed_steps_dropped_counterexample:
  "\<not> success (example_failed_actions ! 1) \<and>
   map_option wf_steps
     (generate_workflow default_config insertion_order
        (example_session example_failed_actions) None) =
     Some [ActionStep 1 ''browser.click'' [(''selector'', PStr ''${var_1}'')] None None None]"
  by code_simp

text \<open>
  Claim C8, as amended. Step conversion turns every captured action into one step, in
  capture order, and the step of an action with \<open>success = False\<close> carries the
  \<open>continue\<close> on-error policy; with loop detection and optimization switched off these
  steps are the workflow's steps. The later stages do not protect them: the counterexample
  shows adjacency deduplication removing the step of a failed action.
\<close>

theorem failed_actions_converted:
  "length (convert_actions_to_steps acts vars) = length acts \<and>
   (\<forall>i < length acts.
      step_action (convert_actions_to_steps acts vars ! i) =
        action_type (acts ! i) @ ''.'' @ tool_name (acts ! i) \<and>
      step_on_error (convert_actions_to_steps acts vars ! i) =
        (if success (acts ! i) then None else Some ''continue'')) \<and>
   (generate_workflow cfg set_order session nm = Some flow \<and> \<not> detect_loops cfg \<and> \<not> optimize cfg
      \<longrightarrow> wf_steps flow = convert_actions_to_steps (actions session) (wf_variables flow))"
proof -
  have "wf_steps flow = convert_actions_to_steps (actions session) (wf_variables flow)"
    if "generate_workflow cfg set_order session nm = Some flow" "\<not> detect_loops cfg" "\<not> optimize cfg"
    using that by (auto simp: generate_workflow_def Let_def split: option.splits if_splits)
  then show ?thesis
    by (auto simp: convert_actions_length convert_actions_nth convert_action_def)
qed

theorem failed_actions_converted_witness:
  "(1::nat) < length example_failed_actions \<and>
   length (convert_actions_to_steps example_failed_actions []) = 2 \<and>
   \<not> success (example_failed_actions ! 1) \<and>
   step_on_error (convert_actions_to_steps example_failed_actions [] ! 1) = Some ''continue''"
proof -
  have len: "length example_failed_actions = 2"
    by (simp add: example_failed_actions_def)
  have fail: "\<not> success (example_failed_actions ! 1)"
    by (simp add: example_failed_actions_def example_action_def)
  show ?thesis
    using failed_actions_converted[of example_failed_actions "[]"] len fail
    by simp
qed


section \<open>Generator: loop detection\<close>

lemma find_pattern_length_cases:
  "find_pattern_length steps i = 1 \<or>
   (2 \<le> find_pattern_length steps i \<and> find_pattern_length steps i \<le> 10 \<and>
    is_pattern_repeating steps i (find_pattern_length steps i) \<and>
    (\<forall>q. 1 \<le> q \<and> q < find_pattern_length steps i \<longrightarrow> \<not> is_pattern_repeating steps i q))"
proof -
  define m where "m = min 10 ((length steps - i) div 2)"
  show ?thesis
  proof (cases "find (is_pattern_repeating steps i) [1..<m + 1]")
    case None
    then show ?thesis by (simp add: find_pattern_length_def m_def del: upt_Suc)
  next
    case (Some p)
    then have fp: "find_pattern_length steps i = p"
      by (simp add: find_pattern_length_def m_def del: upt_Suc)
    from Some obtain k where k: "k < length [1..<m + 1]" "is_pattern_repeating steps i ([1..<m + 1] ! k)"
      "p = [1..<m + 1] ! k" "\<forall>j<k. \<not> is_pattern_repeating steps i ([1..<m + 1] ! j)"
      unfolding find_Some_iff by blast
    from k(1) have km: "k < m" unfolding length_upt by arith
    have nth: "[1..<m + 1] ! j = 1 + j" if "j < m" for j
      by (rule nth_upt) (use that in arith)
    from k(3) km have p: "p = 1 + k" by (simp only: nth)
    have rep: "is_pattern_repeating steps i p" using k(2,3) by simp
    have least: "\<not> is_pattern_repeating steps i q" if "1 \<le> q" "q < p" for q
    proof -
      from that p have "q - 1 < k" by arith
      with k(4) have "\<not> is_pattern_repeating steps i ([1..<m + 1] ! (q - 1))" by blast
      moreover from \<open>q - 1 < k\<close> km have "[1..<m + 1] ! (q - 1) = 1 + (q - 1)"
        by (intro nth) arith
      ultimately show ?thesis using that(1) by simp
    qed
    have "p \<le> 10" using p km by (simp add: m_def)
    with fp p rep least show ?thesis by (cases "k = 0") auto
  qed
qed

lemma find_pattern_length_complete:
  assumes "\<not> is_pattern_repeating steps i 1" and "2 \<le> q" and "q \<le> 10"
    and "is_pattern_repeating steps i q"
  shows "1 < find_pattern_length steps i \<and> find_pattern_length steps i \<le> q"
proof -
  define m where "m = min 10 ((length steps - i) div 2)"
  have "i + q * 2 \<le> length steps"
    using assms(4) by (auto simp: is_pattern_repeating_def split: if_splits)
  then have qm: "q \<le> m" using assms(3) unfolding m_def by arith
  have nth: "[1..<m + 1] ! j = 1 + j" if "j < m" for j
    by (rule nth_upt) (use that in arith)
  have "q \<in> set [1..<m + 1]" using assms(2) qm unfolding set_upt by auto
  with assms(4) have "find (is_pattern_repeating steps i) [1..<m + 1] \<noteq> None"
    unfolding find_None_iff by blast
  then obtain p where some: "find (is_pattern_repeating steps i) [1..<m + 1] = Some p" by auto
  then have fp: "find_pattern_length steps i = p"
    by (simp add: find_pattern_length_def m_def del: upt_Suc)
  from some obtain k where k: "k < length [1..<m + 1]" "is_pattern_repeating steps i ([1..<m + 1] ! k)"
    "p = [1..<m + 1] ! k" "\<forall>j<k. \<not> is_pattern_repeating steps i ([1..<m + 1] ! j)"
    unfolding find_Some_iff by blast
  from k(1) have km: "k < m" unfolding length_upt by arith
  from k(3) km have p: "p = 1 + k" by (simp only: nth)
  have "p \<noteq> 1" using k(2,3) assms(1) by auto
  with p have gt: "1 < p" by arith
  have "p \<le> q"
  proof (rule ccontr)
    assume "\<not> p \<le> q"
    with p assms(2) have lt: "q - 1 < k" by arith
    with k(4) have "\<not> is_pattern_repeating steps i ([1..<m + 1] ! (q - 1))" by blast
    moreover from lt km have "[1..<m + 1] ! (q - 1) = 1 + (q - 1)" by (intro nth) arith
    ultimately show False using assms(2,4) by simp
  qed
  with gt fp show ?thesis by simp
qed

lemma single_step_repeat:
  assumes "i + 1 < length steps" and "step_action (steps ! i) = step_action (steps ! (i + 1))"
  shows "is_pattern_repeating steps i 1"
proof -
  have "take 1 (drop i steps) = [steps ! i]"
    using assms(1) by (simp add: take_Suc_conv_app_nth)
  moreover have "take 1 (drop (i + 1) steps) = [steps ! (i + 1)]"
    using assms(1) by (simp add: take_Suc_conv_app_nth)
  ultimately show ?thesis
    using assms by (simp add: is_pattern_repeating_def slice_def)
qed

lemma single_step_repeat_not_folded:
  assumes "is_pattern_repeating steps i 1"
  shows "find_pattern_length steps i = 1"
  using find_pattern_length_cases[of steps i] assms by (metis le_refl one_less_numeral_iff
      order_less_le_trans semiring_norm(76) numeral_2_eq_2 Suc_1 lessI less_le_trans)

lemma count_loop_total:
  assumes "0 < p"
  shows "\<exists>c. count_loop steps p idx cnt = Some c"
proof (induction "length steps - idx" arbitrary: idx cnt rule: less_induct)
  case less
  show ?case
  proof (cases "idx + p \<le> length steps \<and> is_pattern_repeating steps idx p")
    case True
    then have "length steps - (idx + p) < length steps - idx"
      using assms by arith
    from less[OF this] obtain c where "count_loop steps p (idx + p) (cnt + 1) = Some c"
      by blast
    with True show ?thesis by (subst count_loop.simps) simp
  next
    case False
    then show ?thesis by (subst count_loop.simps) auto
  qed
qed

lemma count_pattern_repeats_total:
  assumes "0 < p"
  shows "\<exists>rc. count_pattern_repeats steps i p = Some rc \<and> 1 \<le> rc"
proof -
  from count_loop_total[OF assms] obtain c where "count_loop steps p i 0 = Some c"
    by blast
  then show ?thesis by (simp add: count_pattern_repeats_def)
qed

lemma detect_loop_total: "\<exists>out. detect_loop steps i optimized = Some out"
proof (induction steps i optimized rule: detect_loop.induct)
  case (1 steps i optimized)
  show ?case
  proof (cases "i < length steps")
    case False
    then show ?thesis by (subst detect_loop.simps) simp
  next
    case True
    show ?thesis
    proof (cases "1 < find_pattern_length steps i")
      case long: True
      then obtain rc where
        rc: "count_pattern_repeats steps i (find_pattern_length steps i) = Some rc"
        using count_pattern_repeats_total[of "find_pattern_length steps i" steps i] by auto
      from "1.IH"(1)[OF True refl long rc] True long rc show ?thesis
        by (subst detect_loop.simps) (simp add: Let_def)
    next
      case short: False
      from "1.IH"(2)[OF True refl short] True short show ?thesis
        by (subst detect_loop.simps) (simp add: Let_def)
    qed
  qed
qed

lemma detect_loop_pass:
  assumes "i < length steps" and "find_pattern_length steps i \<le> 1"
  shows "detect_loop steps i optimized = detect_loop steps (i + 1) (optimized @ [steps ! i])"
  using assms by (subst detect_loop.simps) (simp add: Let_def)

lemma detect_loop_fold:
  assumes "i < length steps" and "1 < find_pattern_length steps i"
  shows "\<exists>rc\<ge>1. detect_loop steps i optimized =
           detect_loop steps (i + find_pattern_length steps i * rc)
             (optimized @ [LoopStep (length optimized + 1) rc
                             (slice steps i (i + find_pattern_length steps i))])"
proof -
  from assms(2) obtain rc where
    rc: "count_pattern_repeats steps i (find_pattern_length steps i) = Some rc" "1 \<le> rc"
    using count_pattern_repeats_total[of "find_pattern_length steps i" steps i] by auto
  have "detect_loop steps i optimized =
          detect_loop steps (i + find_pattern_length steps i * rc)
            (optimized @ [LoopStep (length optimized + 1) rc
                            (slice steps i (i + find_pattern_length steps i))])"
    using assms rc(1) by (subst detect_loop.simps) (simp add: Let_def)
  with rc(2) show ?thesis by blast
qed

theorem single_step_runs_counterexample:
  "detect_and_optimize_loops example_aaa = Some example_aaa"
  by code_simp

lemma detect_loops_ababab:
  "detect_and_optimize_loops example_ababab =
     Some [LoopStep 1 2 [example_step 1 ''A'', example_step 2 ''B''],
           example_step 5 ''A'', example_step 6 ''B'']"
  by code_simp

text \<open>
  Claim C6, as amended. Loop detection always returns. At a scan position whose step has
  the same action identifier as the next step (a repeating block of length 1) the step is
  passed through unchanged and no loop is formed; this also holds whenever no repeating
  block is found. Otherwise, where a block of length 2 to 10 is immediately followed by a
  block with the same action identifiers, the shortest such block is folded into one loop
  step that records that block as its pattern, and scanning resumes behind the folded
  region. For the identifiers \<open>[A,B,A,B,A,B]\<close>
  the first output step is a loop step with pattern \<open>[A,B]\<close>.
\<close>

theorem loop_folding:
  assumes "i < length steps"
  shows "(\<exists>out. detect_loop steps i optimized = Some out) \<and>
    (i + 1 < length steps \<and> step_action (steps ! i) = step_action (steps ! (i + 1)) \<longrightarrow>
       detect_loop steps i optimized = detect_loop steps (i + 1) (optimized @ [steps ! i])) \<and>
    (find_pattern_length steps i \<le> 1 \<longrightarrow>
       detect_loop steps i optimized = detect_loop steps (i + 1) (optimized @ [steps ! i])) \<and>
    (1 < find_pattern_length steps i \<longrightarrow>
       2 \<le> find_pattern_length steps i \<and> find_pattern_length steps i \<le> 10 \<and>
       is_pattern_repeating steps i (find_pattern_length steps i) \<and>
       (\<forall>q. 1 \<le> q \<and> q < find_pattern_length steps i \<longrightarrow> \<not> is_pattern_repeating steps i q) \<and>
       (\<exists>rc\<ge>1. detect_loop steps i optimized =
          detect_loop steps (i + find_pattern_length steps i * rc)
            (optimized @ [LoopStep (length optimized + 1) rc
                            (slice steps i (i + find_pattern_length steps i))]))) \<and>
    (\<not> is_pattern_repeating steps i 1 \<and> 2 \<le> q \<and> q \<le> 10 \<and> is_pattern_repeating steps i q \<longrightarrow>
       1 < find_pattern_length steps i \<and> find_pattern_length steps i \<le> q)"
proof (intro conjI impI)
  show "\<exists>out. detect_loop steps i optimized = Some out"
    by (rule detect_loop_total)
next
  assume "i + 1 < length steps \<and> step_action (steps ! i) = step_action (steps ! (i + 1))"
  then have "find_pattern_length steps i = 1"
    by (intro single_step_repeat_not_folded single_step_repeat) simp_all
  with assms show "detect_loop steps i optimized = detect_loop steps (i + 1) (optimized @ [steps ! i])"
    by (simp add: detect_loop_pass)
next
  assume "find_pattern_length steps i \<le> 1"
  with assms show "detect_loop steps i optimized = detect_loop steps (i + 1) (optimized @ [steps ! i])"
    by (rule detect_loop_pass)
next
  assume long: "1 < find_pattern_length steps i"
  with find_pattern_length_cases[of steps i]
  show "2 \<le> find_pattern_length steps i" "find_pattern_length steps i \<le> 10"
    "is_pattern_repeating steps i (find_pattern_length steps i)"
    "\<forall>q. 1 \<le> q \<and> q < find_pattern_length steps i \<longrightarrow> \<not> is_pattern_repeating steps i q"
    by auto
  from detect_loop_fold[OF assms long]
  show "\<exists>rc\<ge>1. detect_loop steps i optimized =
          detect_loop steps (i + find_pattern_length steps i * rc)
            (optimized @ [LoopStep (length optimized + 1) rc
                            (slice steps i (i + find_pattern_length steps i))])" .
next
  assume h: "\<not> is_pattern_repeating steps i 1 \<and> 2 \<le> q \<and> q \<le> 10 \<and> is_pattern_repeating steps i q"
  then show "1 < find_pattern_length steps i" "find_pattern_length steps i \<le> q"
    using find_pattern_length_complete[of steps i q] by simp_all
qed

theorem loop_folding_witness:
  "0 < length example_ababab \<and> find_pattern_length example_ababab 0 = 2 \<and>
   (\<exists>rc\<ge>1. detect_loop example_ababab 0 [] =
      detect_loop example_ababab (0 + 2 * rc)
        [LoopStep 1 rc [example_step 1 ''A'', example_step 2 ''B'']])"
proof -
  have len: "0 < length example_ababab" by (simp add: example_ababab_def)
  have fpl: "find_pattern_length example_ababab 0 = 2" by code_simp
  have pat: "slice example_ababab 0 (Suc (Suc 0)) = [example_step 1 ''A'', example_step 2 ''B'']"
    by (simp add: example_ababab_def slice_def)
  show ?thesis
    using loop_folding[OF len, of "[]"] len fpl pat by simp
qed


section \<open>Generator: variable extraction and substitution\<close>
























section \<open>Orchestrator: the security gate\<close>

lemma validate_params_trace:
  "\<exists>es. list_all is_validation es \<and>
        snd (validate_params c orch ps) = orch\<lparr>trace := trace orch @ es\<rparr>"
proof (induction ps arbitrary: orch)
  case Nil
  show ?case by (intro exI[of _ "[]"]) simp
next
  case (Cons p ps)
  obtain k v where p: "p = (k, v)" by (cases p)
  show ?case
  proof (cases "is_str v")
    case False
    then have "validate_params c orch (p # ps) = validate_params c orch ps"
      using p by (cases v) simp_all
    with Cons.IH[of orch] show ?thesis by simp
  next
    case True
    then obtain s where v: "v = PStr s" by (cases v) simp_all
    let ?e = "Validated s (detect_input_type k)"
    let ?o = "orch\<lparr>trace := trace orch @ [?e]\<rparr>"
    from Cons.IH[of ?o] obtain es where
      es: "list_all is_validation es" "snd (validate_params c ?o ps) = ?o\<lparr>trace := trace ?o @ es\<rparr>"
      by blast
    have one: "?o = orch\<lparr>trace := trace orch @ [?e]\<rparr>" "list_all is_validation [?e]" by simp_all
    have more: "?o\<lparr>trace := trace ?o @ es\<rparr> = orch\<lparr>trace := trace orch @ (?e # es)\<rparr>"
      "list_all is_validation (?e # es)" using es(1) by simp_all
    have "snd (validate_params c orch (p # ps)) = ?o \<or>
          snd (validate_params c orch (p # ps)) = snd (validate_params c ?o ps)"
      using p v by (simp add: Let_def split: sum.splits prod.splits)
    with es(2) one more show ?thesis by metis
  qed
qed

lemma validate_params_rejects:
  assumes "(k, PStr s) \<in> set ps"
    and "validate_input c s (detect_input_type k) = Inr (False, r)"
  shows "\<not> fst (fst (validate_params c orch ps))"
  using assms
proof (induction ps arbitrary: orch)
  case Nil
  then show ?case by simp
next
  case (Cons p ps)
  obtain k' v where p: "p = (k', v)" by (cases p)
  show ?case
  proof (cases "p = (k, PStr s)")
    case True
    with Cons.prems(2) show ?thesis by (simp add: Let_def)
  next
    case False
    with Cons.prems have "(k, PStr s) \<in> set ps" by simp
    from Cons.IH[OF this Cons.prems(2)] p show ?thesis
      by (cases v) (simp_all add: Let_def split: sum.splits prod.splits)
  qed
qed

lemma validate_params_reason:
  assumes "\<forall>k v. (k, PStr v) \<in> set ps \<longrightarrow> (\<exists>ok r. validate_input c v (detect_input_type k) = Inr (ok, r))"
    and "\<not> fst (fst (validate_params c orch ps))"
  shows "\<exists>k v r. (k, PStr v) \<in> set ps \<and> validate_input c v (detect_input_type k) = Inr (False, r) \<and>
           snd (fst (validate_params c orch ps)) =
             Some (''Parameter '' @ [CHR 0x27] @ k @ [CHR 0x27] @ '' validation failed: '' @ r)"
  using assms
proof (induction ps arbitrary: orch)
  case Nil
  then show ?case by simp
next
  case (Cons p ps)
  obtain k v where p: "p = (k, v)" by (cases p)
  from Cons.prems(1) have rest:
    "\<forall>k v. (k, PStr v) \<in> set ps \<longrightarrow> (\<exists>ok r. validate_input c v (detect_input_type k) = Inr (ok, r))"
    by auto
  show ?case
  proof (cases "is_str v")
    case False
    then have eq: "validate_params c orch (p # ps) = validate_params c orch ps"
      using p by (cases v) simp_all
    from Cons.IH[OF rest, of orch] Cons.prems(2) eq show ?thesis
      by (metis list.set_intros(2))
  next
    case True
    then obtain s where v: "v = PStr s" by (cases v) simp_all
    have "(k, PStr s) \<in> set (p # ps)" using p v by simp
    with Cons.prems(1) obtain ok r where
      val: "validate_input c s (detect_input_type k) = Inr (ok, r)" by blast
    show ?thesis
    proof (cases ok)
      case False
      with val p v have "snd (fst (validate_params c orch (p # ps))) =
          Some (''Parameter '' @ [CHR 0x27] @ k @ [CHR 0x27] @ '' validation failed: '' @ r)"
        by (simp add: Let_def)
      with val False p v show ?thesis by (metis list.set_intros(1))
    next
      case True
      let ?o = "orch\<lparr>trace := trace orch @ [Validated s (detect_input_type k)]\<rparr>"
      from val True p v have eq: "validate_params c orch (p # ps) = validate_params c ?o ps"
        by (simp add: Let_def)
      from Cons.IH[OF rest, of ?o] Cons.prems(2) eq show ?thesis
        by (metis list.set_intros(2))
    qed
  qed
qed

lemma validate_params_no_strings:
  assumes "\<forall>(k, v) \<in> set ps. \<not> is_str v"
  shows "validate_params c orch ps = ((True, None), orch)"
  using assms
proof (induction ps)
  case Nil
  then show ?case by simp
next
  case (Cons p ps)
  obtain k v where p: "p = (k, v)" by (cases p)
  from Cons.prems p have "\<not> is_str v" and rest: "\<forall>(k, v) \<in> set ps. \<not> is_str v" by simp_all
  then have "validate_params c orch (p # ps) = validate_params c orch ps"
    using p by (cases v) simp_all
  with Cons.IH[OF rest] show ?case by simp
qed

lemma new_events_append:
  assumes "trace orch' = trace orch @ es"
  shows "new_events orch orch' = es"
  using assms by (simp add: new_events_def)

text \<open>
  Claim C2. When the validator is available and rejects a string-valued parameter of the
  call, \<open>execute_secure_action\<close> returns a result with \<open>blocked = True\<close> and
  \<open>success = False\<close> whose error starts with the security message; the only calls made
  are validator calls, and apart from the trace of these calls the orchestrator, its
  recorder included, is unchanged: no start mark, no dispatch, no capture, no memory
  write. Where the validator raises on no parameter, the error names a rejected parameter
  and carries the validator's reason for it.
\<close>

theorem blocked_call_has_no_effects:
  assumes "security orch"
    and "(param_name, PStr s) \<in> set params"
    and "validate_input c s (detect_input_type param_name) = Inr (False, reason)"
  shows "py_get (fst (execute_secure_action c orch atype tool params)) ''blocked'' PNone = PBool True \<and>
         py_get (fst (execute_secure_action c orch atype tool params)) ''success'' PNone = PBool False \<and>
         (\<exists>msg. py_get (fst (execute_secure_action c orch atype tool params)) ''error'' PNone =
                  PStr (''Security validation failed: '' @ msg)) \<and>
         trace (snd (execute_secure_action c orch atype tool params)) =
           trace orch @ new_events orch (snd (execute_secure_action c orch atype tool params)) \<and>
         list_all is_validation (new_events orch (snd (execute_secure_action c orch atype tool params))) \<and>
         (snd (execute_secure_action c orch atype tool params))\<lparr>trace := trace orch\<rparr> = orch \<and>
         recorder (snd (execute_secure_action c orch atype tool params)) = recorder orch \<and>
         ((\<forall>k v. (k, PStr v) \<in> set params \<longrightarrow>
              (\<exists>ok r. validate_input c v (detect_input_type k) = Inr (ok, r))) \<longrightarrow>
          (\<exists>k v r. (k, PStr v) \<in> set params \<and>
              validate_input c v (detect_input_type k) = Inr (False, r) \<and>
              py_get (fst (execute_secure_action c orch atype tool params)) ''error'' PNone =
                PStr (''Security validation failed: Parameter '' @ [CHR 0x27] @ k @ [CHR 0x27] @
                      '' validation failed: '' @ r)))"
proof -
  let ?v = "validate_params c orch params"
  have rej: "\<not> fst (fst ?v)"
    by (rule validate_params_rejects[OF assms(2,3)])
  have res: "fst (execute_secure_action c orch atype tool params) =
      [(''success'', PBool False),
       (''error'', PStr (''Security validation failed: '' @ opt_str (snd (fst ?v)))),
       (''blocked'', PBool True)]"
    and st: "snd (execute_secure_action c orch atype tool params) = snd ?v"
    using assms(1) rej
    by (simp_all add: execute_secure_action_def validate_action_def case_prod_beta)
  from validate_params_trace[of c orch params] obtain es where
    es: "list_all is_validation es" "snd ?v = orch\<lparr>trace := trace orch @ es\<rparr>" by blast
  have ne: "new_events orch (snd ?v) = es"
    using es(2) by (simp add: new_events_def)
  have named: "\<exists>k v r. (k, PStr v) \<in> set params \<and>
              validate_input c v (detect_input_type k) = Inr (False, r) \<and>
              py_get (fst (execute_secure_action c orch atype tool params)) ''error'' PNone =
                PStr (''Security validation failed: Parameter '' @ [CHR 0x27] @ k @ [CHR 0x27] @
                      '' validation failed: '' @ r)"
    if "\<forall>k v. (k, PStr v) \<in> set params \<longrightarrow>
              (\<exists>ok r. validate_input c v (detect_input_type k) = Inr (ok, r))"
  proof -
    from validate_params_reason[OF that rej] obtain k v r where
      "(k, PStr v) \<in> set params" "validate_input c v (detect_input_type k) = Inr (False, r)"
      "snd (fst ?v) = Some (''Parameter '' @ [CHR 0x27] @ k @ [CHR 0x27] @ '' validation failed: '' @ r)"
      by blast
    then show ?thesis unfolding res by (auto simp: py_get_def opt_str_def)
  qed
  have "py_get (fst (execute_secure_action c orch atype tool params)) ''blocked'' PNone = PBool True"
    "py_get (fst (execute_secure_action c orch atype tool params)) ''success'' PNone = PBool False"
    "\<exists>msg. py_get (fst (execute_secure_action c orch atype tool params)) ''error'' PNone =
                  PStr (''Security validation failed: '' @ msg)"
    unfolding res by (simp_all add: py_get_def)
  moreover have "trace (snd (execute_secure_action c orch atype tool params)) =
      trace orch @ new_events orch (snd (execute_secure_action c orch atype tool params))"
    "list_all is_validation (new_events orch (snd (execute_secure_action c orch atype tool params)))"
    "(snd (execute_secure_action c orch atype tool params))\<lparr>trace := trace orch\<rparr> = orch"
    "recorder (snd (execute_secure_action c orch atype tool params)) = recorder orch"
    unfolding st ne using es by simp_all
  ultimately show ?thesis using named by blast
qed

lemma example_rm_rejected:
  "validate_input example_collab ''rm -rf /'' (detect_input_type ''command'') =
     Inr (False, ''Dangerous command pattern detected'')"
  by code_simp

theorem blocked_call_has_no_effects_witness:
  "security example_orch \<and>
   (''command'', PStr ''rm -rf /'') \<in> set example_rm_params \<and>
   validate_input example_collab ''rm -rf /'' (detect_input_type ''command'') =
     Inr (False, ''Dangerous command pattern detected'') \<and>
   py_get (fst (execute_secure_action example_collab example_orch ''hands'' ''type'' example_rm_params))
     ''blocked'' PNone = PBool True \<and>
   py_get (fst (execute_secure_action example_collab example_orch ''hands'' ''type'' example_rm_params))
     ''success'' PNone = PBool False \<and>
   list_all is_validation
     (new_events example_orch
        (snd (execute_secure_action example_collab example_orch ''hands'' ''type'' example_rm_params))) \<and>
   recorder (snd (execute_secure_action example_collab example_orch ''hands'' ''type'' example_rm_params)) =
     recorder example_orch"
proof -
  have sec: "security example_orch" by (simp add: example_orch_def)
  have mem: "(''command'', PStr ''rm -rf /'') \<in> set example_rm_params"
    by (simp add: example_rm_params_def)
  show ?thesis
    using blocked_call_has_no_effects[OF sec mem example_rm_rejected, of "''hands''" "''type''"]
      sec mem example_rm_rejected
    by blast
qed

lemma hook_mark_start_trace:
  "\<exists>es. trace (hook_mark_start c orch atype tool) = trace orch @ es \<and>
        list_all (\<lambda>e. \<not> is_validation e) es"
  by (auto simp: hook_mark_start_def split: option.splits)

lemma hook_capture_trace:
  "\<exists>es. trace (hook_capture c orch atype tool params res) = trace orch @ es \<and>
        list_all (\<lambda>e. \<not> is_validation e) es"
  by (auto simp: hook_capture_def split: option.splits)

lemma store_in_memory_trace:
  "\<exists>es. trace (store_in_memory orch atype tool params res) = trace orch @ es \<and>
        list_all (\<lambda>e. \<not> is_validation e) es"
  by (auto simp: store_in_memory_def)

lemma execute_action_trace:
  "\<exists>es. trace (snd (execute_action c orch atype tool params)) =
          trace orch @ Dispatched atype tool params # es \<and>
        list_all (\<lambda>e. \<not> is_validation e) es"
  by (auto simp: execute_action_def execute_vision_action_def execute_memory_action_def
      execute_browser_action_def execute_hands_action_def Let_def split: sum.splits)

lemma execute_action_not_blocked:
  "map_of (fst (execute_action c orch atype tool params)) ''blocked'' = None"
  by (auto simp: execute_action_def execute_vision_action_def execute_memory_action_def
      execute_browser_action_def execute_hands_action_def failure_def Let_def split: sum.splits)

lemma ungated_call:
  assumes "\<not> security orch \<or> validate_params c orch params = ((True, None), orch)"
  shows "fst (execute_secure_action c orch atype tool params) =
           fst (execute_action c (hook_mark_start c orch atype tool) atype tool params) \<and>
         (\<exists>es1 es2. trace (snd (execute_secure_action c orch atype tool params)) =
            trace orch @ es1 @ Dispatched atype tool params # es2 \<and>
            list_all (\<lambda>e. \<not> is_validation e) es1 \<and> list_all (\<lambda>e. \<not> is_validation e) es2)"
proof -
  let ?o2 = "hook_mark_start c orch atype tool"
  let ?r = "execute_action c ?o2 atype tool params"
  let ?o4 = "hook_capture c (snd ?r) atype tool params (fst ?r)"
  let ?o5 = "if memory ?o4 \<and> truthy (py_get (fst ?r) ''success'' (PBool True))
             then store_in_memory ?o4 atype tool params (fst ?r) else ?o4"
  have eq: "execute_secure_action c orch atype tool params = (fst ?r, ?o5)"
    using assms
    by (auto simp: execute_secure_action_def validate_action_def case_prod_beta Let_def)
  obtain es1 where e1: "trace ?o2 = trace orch @ es1" "list_all (\<lambda>e. \<not> is_validation e) es1"
    using hook_mark_start_trace by blast
  obtain es2 where e2: "trace (snd ?r) = trace ?o2 @ Dispatched atype tool params # es2"
    "list_all (\<lambda>e. \<not> is_validation e) es2"
    using execute_action_trace by blast
  obtain es3 where e3: "trace ?o4 = trace (snd ?r) @ es3" "list_all (\<lambda>e. \<not> is_validation e) es3"
    using hook_capture_trace by blast
  obtain es4 where e4: "trace ?o5 = trace ?o4 @ es4" "list_all (\<lambda>e. \<not> is_validation e) es4"
  proof (cases "memory ?o4 \<and> truthy (py_get (fst ?r) ''success'' (PBool True))")
    case True
    with store_in_memory_trace[of ?o4 atype tool params "fst ?r"] that show ?thesis by auto
  next
    case False
    with that[of "[]"] show ?thesis by simp
  qed
  have "trace ?o5 = trace orch @ es1 @ Dispatched atype tool params # (es2 @ es3 @ es4)"
    using e1(1) e2(1) e3(1) e4(1) by simp
  moreover have "list_all (\<lambda>e. \<not> is_validation e) (es2 @ es3 @ es4)"
    using e2(2) e3(2) e4(2) by simp
  ultimately show ?thesis using eq e1(2) by (metis fst_conv snd_conv)
qed

text \<open>
  Claim C10. When no parameter value of the call is a string (numbers, booleans, \<open>None\<close>,
  lists and dictionaries, whatever they contain), the validator is not called, the result
  is not a blocked result, and the call proceeds to the dispatcher, whose result it
  returns.
\<close>

theorem non_string_parameters_bypass_gate:
  assumes "\<forall>(k, v) \<in> set params. \<not> is_str v"
  shows "trace (snd (execute_secure_action c orch atype tool params)) =
           trace orch @ new_events orch (snd (execute_secure_action c orch atype tool params)) \<and>
         list_all (\<lambda>e. \<not> is_validation e)
           (new_events orch (snd (execute_secure_action c orch atype tool params))) \<and>
         Dispatched atype tool params \<in>
           set (new_events orch (snd (execute_secure_action c orch atype tool params))) \<and>
         map_of (fst (execute_secure_action c orch atype tool params)) ''blocked'' = None \<and>
         fst (execute_secure_action c orch atype tool params) =
           fst (execute_action c (hook_mark_start c orch atype tool) atype tool params)"
proof -
  from ungated_call[of orch c params atype tool] validate_params_no_strings[OF assms, of c orch]
  obtain es1 es2 where
    res: "fst (execute_secure_action c orch atype tool params) =
           fst (execute_action c (hook_mark_start c orch atype tool) atype tool params)"
    and tr: "trace (snd (execute_secure_action c orch atype tool params)) =
            trace orch @ es1 @ Dispatched atype tool params # es2"
    and ok: "list_all (\<lambda>e. \<not> is_validation e) es1" "list_all (\<lambda>e. \<not> is_validation e) es2"
    by auto
  have ne: "new_events orch (snd (execute_secure_action c orch atype tool params)) =
      es1 @ Dispatched atype tool params # es2"
    using tr by (simp add: new_events_def)
  show ?thesis
    unfolding ne using tr ok res execute_action_not_blocked by simp
qed

theorem non_string_parameters_bypass_gate_witness:
  "list_all (\<lambda>(k, v). \<not> is_str v) example_nested_params \<and>
   list_all (\<lambda>e. \<not> is_validation e)
     (new_events example_orch
        (snd (execute_secure_action example_collab example_orch ''hands'' ''type''
                example_nested_params))) \<and>
   Dispatched ''hands'' ''type'' example_nested_params \<in>
     set (new_events example_orch
            (snd (execute_secure_action example_collab example_orch ''hands'' ''type''
                    example_nested_params))) \<and>
   map_of (fst (execute_secure_action example_collab example_orch ''hands'' ''type''
                  example_nested_params)) ''blocked'' = None"
proof -
  have ns: "\<forall>(k, v) \<in> set example_nested_params. \<not> is_str v"
    by (simp add: example_nested_params_def)
  have ns': "list_all (\<lambda>(k, v). \<not> is_str v) example_nested_params"
    by (simp add: example_nested_params_def)
  show ?thesis
    using non_string_parameters_bypass_gate[OF ns, of example_collab example_orch "''hands''" "''type''"]
      ns'
    by blast
qed


section \<open>Agent: the decision\<close>


lemma filter_empty_none:
  "(filter P xs = []) = (\<not> (\<exists>x \<in> set xs. P x))"
  by (auto simp: filter_empty_conv)




section \<open>Agent: plan execution\<close>








section \<open>Agent: autonomous execution\<close>

lemma analyze_and_act_no_confidence:
  "map_of (fst (analyze_and_act c ag screenshot goal)) ''confidence'' = None"
  by (auto simp: analyze_and_act_def cycle_failure_def Let_def
      split: prod.splits sum.splits pyval.splits)

lemma analyze_and_act_success_bool:
  "\<exists>b. map_of (fst (analyze_and_act c ag screenshot goal)) ''success'' = Some (PBool b)"
  by (auto simp: analyze_and_act_def cycle_failure_def Let_def
      split: prod.splits sum.splits pyval.splits)

lemma check_goal_never_achieved:
  "check_goal_achievement goal (fst (analyze_and_act c ag screenshot goal)) = Inr False"
  using analyze_and_act_no_confidence[of c ag screenshot goal]
  by (simp add: check_goal_achievement_def py_get_def)

lemma goal_loop_exhausts:
  "\<exists>history ag'.
     goal_loop c goal n ag i shot False hist =
       (Inr (final_result False goal (max i n) (hist @ history)), ag') \<and>
     length history = nat (n - i)"
proof (induction "nat (n - i)" arbitrary: i ag shot hist rule: less_induct)
  case less
  show ?case
  proof (cases "i < n")
    case False
    then have "goal_loop c goal n ag i shot False hist = (Inr (final_result False goal i hist), ag)"
      by (subst goal_loop.simps) simp
    with False show ?thesis by (intro exI[of _ "[]"] exI[of _ ag]) (simp add: max_def)
  next
    case True
    let ?shot = "case shot of None \<Rightarrow> ''/tmp/current_screen.png''
                 | Some s \<Rightarrow> if s = [] then ''/tmp/current_screen.png'' else s"
    let ?cycle = "analyze_and_act c ag ?shot goal"
    have step: "goal_loop c goal n ag i shot False hist =
        goal_loop c goal n (snd ?cycle) (i + 1) None False (hist @ [fst ?cycle])"
      using True check_goal_never_achieved[of goal c ag ?shot]
      by (subst goal_loop.simps) (simp add: Let_def)
    from True have "nat (n - (i + 1)) < nat (n - i)" by simp
    from less[OF this, of "snd ?cycle" None "hist @ [fst ?cycle]"] obtain history ag' where
      h: "goal_loop c goal n (snd ?cycle) (i + 1) None False (hist @ [fst ?cycle]) =
            (Inr (final_result False goal (max (i + 1) n) ((hist @ [fst ?cycle]) @ history)), ag')"
        "length history = nat (n - (i + 1))"
      by blast
    have "max (i + 1) n = max i n" using True by simp
    moreover have "length (fst ?cycle # history) = nat (n - i)"
      using h(2) True by simp
    ultimately show ?thesis
      using step h(1) by (intro exI[of _ "fst ?cycle # history"] exI[of _ ag']) simp
  qed
qed

text \<open>
  Claim C9: what the code does. The result of a cycle has no \<open>confidence\<close> entry, so the
  check for goal achievement is false after every cycle: the loop never stops early,
  whatever the cycles report. It runs \<open>max_iterations\<close> cycles (none for a negative
  bound), never raises, and returns \<open>success = False\<close> with the iteration count and the
  history of all cycles.
\<close>

theorem autonomous_run_never_stops_early:
  "\<exists>history ag'.
     execute_goal_autonomously c ag goal initial_screenshot max_iterations =
       (Inr [(''success'', PBool False), (''goal'', PStr goal),
             (''iterations'', PInt (max 0 max_iterations)),
             (''history'', PList (map PDict history))], ag') \<and>
     length history = nat max_iterations"
  using goal_loop_exhausts[of c goal max_iterations ag 0 initial_screenshot "[]"]
  by (simp add: execute_goal_autonomously_def final_result_def)

theorem autonomous_run_ignores_confidence:
  "(case fst (execute_goal_autonomously example_collab example_agent ''find docs'' None 3) of
      Inl e \<Rightarrow> False
    | Inr res \<Rightarrow>
        py_get res ''success'' PNone = PBool False \<and>
        py_get res ''iterations'' PNone = PInt 3 \<and>
        (case py_get res ''history'' PNone of
           PList history \<Rightarrow> length history = 3 \<and> list_all confident_success history
         | _ \<Rightarrow> False))"
  by code_simp


end
